theory Spec2Isabelle
  imports Complex_Main "HOL-Library.Word" "HOL-Library.AList"
begin

unbundle bit_operations_syntax

section \<open>JavaScript values used by the decoder\<close>

text \<open>
  A JavaScript Number is modelled as a real number, one of the two infinities, or NaN.
  The idealisation: finite doubles are exact reals (no rounding, no overflow, no negative
  zero). Every scaling of the decoder divides by a power of two or multiplies small
  integers, which doubles do exactly; only \<open>Math.log\<close> and the arithmetic of \<open>dewpoint\<close>
  round in the program.
\<close>

datatype num = Fin real | PInf | NInf | NaN

text \<open>A property value of the decoded object.\<close>

datatype jsval = Undefined | Number num | String string

text \<open>
  An array element or an uninitialised variable is a Number or \<open>undefined\<close>:
  \<open>None\<close> stands for \<open>undefined\<close>.
\<close>

type_synonym elem = "num option"

fun ToNumber :: "elem \<Rightarrow> num" where
  "ToNumber None = NaN"
| "ToNumber (Some x) = x"

fun val_of :: "elem \<Rightarrow> jsval" where
  "val_of None = Undefined"
| "val_of (Some x) = Number x"

subsection \<open>Arithmetic operators\<close>

fun js_add :: "num \<Rightarrow> num \<Rightarrow> num" where
  "js_add (Fin a) (Fin b) = Fin (a + b)"
| "js_add NaN y = NaN"
| "js_add x NaN = NaN"
| "js_add PInf NInf = NaN"
| "js_add NInf PInf = NaN"
| "js_add PInf y = PInf"
| "js_add x PInf = PInf"
| "js_add NInf y = NInf"
| "js_add x NInf = NInf"

fun js_neg :: "num \<Rightarrow> num" where
  "js_neg (Fin a) = Fin (- a)"
| "js_neg PInf = NInf"
| "js_neg NInf = PInf"
| "js_neg NaN = NaN"

definition js_sub :: "num \<Rightarrow> num \<Rightarrow> num" where
  "js_sub x y = js_add x (js_neg y)"

fun js_mul :: "num \<Rightarrow> num \<Rightarrow> num" where
  "js_mul (Fin a) (Fin b) = Fin (a * b)"
| "js_mul NaN y = NaN"
| "js_mul x NaN = NaN"
| "js_mul (Fin a) y = (if a = 0 then NaN else if (0 < a) = (y = PInf) then PInf else NInf)"
| "js_mul x (Fin b) = (if b = 0 then NaN else if (0 < b) = (x = PInf) then PInf else NInf)"
| "js_mul x y = (if x = y then PInf else NInf)"

fun js_div :: "num \<Rightarrow> num \<Rightarrow> num" where
  "js_div (Fin a) (Fin b) =
     (if b = 0 then (if a = 0 then NaN else if 0 < a then PInf else NInf) else Fin (a / b))"
| "js_div NaN y = NaN"
| "js_div x NaN = NaN"
| "js_div (Fin a) y = Fin 0"
| "js_div x (Fin b) = (if (0 \<le> b) = (x = PInf) then PInf else NInf)"
| "js_div x y = NaN"

text \<open>Relational operators: every comparison with NaN is false.\<close>

fun js_lt :: "num \<Rightarrow> num \<Rightarrow> bool" where
  "js_lt (Fin a) (Fin b) = (a < b)"
| "js_lt NaN y = False"
| "js_lt x NaN = False"
| "js_lt NInf y = (y \<noteq> NInf)"
| "js_lt x PInf = (x \<noteq> PInf)"
| "js_lt x y = False"

fun js_le :: "num \<Rightarrow> num \<Rightarrow> bool" where
  "js_le (Fin a) (Fin b) = (a \<le> b)"
| "js_le NaN y = False"
| "js_le x NaN = False"
| "js_le NInf y = True"
| "js_le x PInf = True"
| "js_le x y = False"

text \<open>\<open>x == c\<close> for a variable that may be undefined and a numeric literal.\<close>

fun js_eq :: "elem \<Rightarrow> real \<Rightarrow> bool" where
  "js_eq (Some (Fin a)) c = (a = c)"
| "js_eq e c = False"

text \<open>The truth value of a Number in a condition.\<close>

fun truthy :: "num \<Rightarrow> bool" where
  "truthy (Fin a) = (a \<noteq> 0)"
| "truthy NaN = False"
| "truthy x = True"

subsection \<open>Bitwise operators\<close>

text \<open>
  The bitwise operators convert their operands with ToInt32: NaN and the infinities
  become 0, a finite number is truncated towards zero and wrapped into
  \<open>[-2^31, 2^31)\<close>.
\<close>

definition signed32 :: "int \<Rightarrow> int" where
  "signed32 n = (n + 2 ^ 31) mod 2 ^ 32 - 2 ^ 31"

fun ToInt32 :: "num \<Rightarrow> int" where
  "ToInt32 (Fin r) = signed32 (if 0 \<le> r then \<lfloor>r\<rfloor> else \<lceil>r\<rceil>)"
| "ToInt32 x = 0"

definition js_shl :: "num \<Rightarrow> nat \<Rightarrow> num" where
  "js_shl x k = Fin (of_int (signed32 (push_bit k (ToInt32 x))))"

definition js_shr :: "num \<Rightarrow> nat \<Rightarrow> num" where
  "js_shr x k = Fin (of_int (drop_bit k (ToInt32 x)))"

definition js_and :: "num \<Rightarrow> num \<Rightarrow> num" where
  "js_and x y = Fin (of_int (ToInt32 x AND ToInt32 y))"

subsection \<open>Math functions\<close>

fun Math_log :: "num \<Rightarrow> num" where
  "Math_log (Fin x) = (if 0 < x then Fin (ln x) else if x = 0 then NInf else NaN)"
| "Math_log PInf = PInf"
| "Math_log x = NaN"

text \<open>\<open>Math.pow(2, e)\<close>: the source raises no other base.\<close>

fun Math_pow2 :: "num \<Rightarrow> num" where
  "Math_pow2 (Fin e) = Fin (2 powr e)"
| "Math_pow2 PInf = PInf"
| "Math_pow2 NInf = Fin 0"
| "Math_pow2 NaN = NaN"

section \<open>The dew point function\<close>

definition dewpoint :: "num \<Rightarrow> num \<Rightarrow> num" where
  "dewpoint t rh =
     (let c1 = Fin 243.04;
          c2 = Fin 17.625;
          h = js_div rh (Fin 100);
          h = (if js_le h (Fin 0.01) then Fin 0.01
               else if js_lt (Fin 1.0) h then Fin 1.0 else h);
          lnh = Math_log h;
          tpc1 = js_add t c1;
          txc2 = js_mul t c2;
          txc2_tpc1 = js_div txc2 tpc1;
          tdew = js_div (js_mul c1 (js_add lnh txc2_tpc1))
                        (js_sub (js_sub c2 lnh) txc2_tpc1)
      in tdew)"

section \<open>The decoder\<close>

type_synonym byte = "8 word"

text \<open>
  The decoded object keeps its keys in insertion order; assigning to a key that is
  already there replaces its value in place.
\<close>

type_synonym obj = "(string \<times> jsval) list"

definition put :: "string \<Rightarrow> jsval \<Rightarrow> obj \<Rightarrow> obj" where
  "put k v d = AList.update k v d"

definition js_get :: "obj \<Rightarrow> string \<Rightarrow> jsval option" where
  "js_get d k = map_of d k"

definition keys :: "obj \<Rightarrow> string set" where
  "keys d = fst ` set d"

text \<open>\<open>bytes[k]\<close>: reading past the end of the array gives \<open>undefined\<close>.\<close>

definition byte_at :: "byte list \<Rightarrow> nat \<Rightarrow> elem" where
  "byte_at bytes k = (if k < length bytes then Some (Fin (of_int (uint (bytes ! k)))) else None)"

text \<open>
  The local state of one call: the index \<open>i\<close> into the message and the object
  \<open>decoded\<close>. The field \<open>trail\<close> is a history variable added for the proofs: it
  lists every value \<open>i\<close> has been given, in order; the program does not read it.
\<close>

record dstate =
  i :: nat
  decoded :: obj
  trail :: "nat list"

definition set_i :: "nat \<Rightarrow> dstate \<Rightarrow> dstate" where
  "set_i n s = s\<lparr>i := n, trail := trail s @ [n]\<rparr>"

definition store :: "string \<Rightarrow> jsval \<Rightarrow> dstate \<Rightarrow> dstate" where
  "store k v s = s\<lparr>decoded := put k v (decoded s)\<rparr>"

text \<open>\<open>flags & m\<close> as a condition.\<close>

definition flag :: "elem \<Rightarrow> real \<Rightarrow> bool" where
  "flag flags m = truthy (js_and (ToNumber flags) (Fin m))"

text \<open>\<open>(bytes[i] << 8) + bytes[i + 1]\<close>\<close>

definition be16 :: "byte list \<Rightarrow> nat \<Rightarrow> num" where
  "be16 bytes k = js_add (js_shl (ToNumber (byte_at bytes k)) 8) (ToNumber (byte_at bytes (k + 1)))"

text \<open>\<open>if (v & 0x8000) v += -0x10000;\<close>\<close>

definition int16 :: "num \<Rightarrow> num" where
  "int16 v = (if truthy (js_and v (Fin 0x8000)) then js_add v (Fin (- 0x10000)) else v)"

subsection \<open>The field groups\<close>

text \<open>
  Each definition is one \<open>if (flags & m) { ... }\<close> block of the source. Blocks whose
  text is repeated in several formats are written once, with the mask as a parameter.
\<close>

definition blk_vBat :: "byte list \<Rightarrow> elem \<Rightarrow> dstate \<Rightarrow> dstate" where
  "blk_vBat bytes flags s =
     (if flag flags 0x1 then
        let vRaw = be16 bytes (i s);
            s = set_i (i s + 2) s;
            vRaw = int16 vRaw
        in store ''vBat'' (Number (js_div vRaw (Fin 4096.0))) s
      else s)"

definition blk_vBus :: "byte list \<Rightarrow> elem \<Rightarrow> dstate \<Rightarrow> dstate" where
  "blk_vBus bytes flags s =
     (if flag flags 0x2 then
        let vRawBus = be16 bytes (i s);
            s = set_i (i s + 2) s;
            vRawBus = int16 vRawBus
        in store ''vBus'' (Number (js_div vRawBus (Fin 4096.0))) s
      else s)"

definition blk_boot :: "byte list \<Rightarrow> elem \<Rightarrow> dstate \<Rightarrow> dstate" where
  "blk_boot bytes flags s =
     (if flag flags 0x4 then
        let iBoot = byte_at bytes (i s);
            s = set_i (i s + 1) s
        in store ''boot'' (val_of iBoot) s
      else s)"

text \<open>
  Temperature, pressure, humidity: mask \<open>0x8\<close>, and \<open>0x4\<close> in format \<open>0x11\<close>. The
  source calls \<open>dewpoint(decoded.tempC, decoded.rh)\<close> right after storing both
  properties; the model passes the two values it has just stored. The same holds for
  the soil groups below.
\<close>

definition blk_env :: "real \<Rightarrow> byte list \<Rightarrow> elem \<Rightarrow> dstate \<Rightarrow> dstate" where
  "blk_env m bytes flags s =
     (if flag flags m then
        let tRaw = be16 bytes (i s);
            tRaw = int16 tRaw;
            s = set_i (i s + 2) s;
            pRaw = be16 bytes (i s);
            s = set_i (i s + 2) s;
            hRaw = byte_at bytes (i s);
            s = set_i (i s + 1) s;
            tempC = js_div tRaw (Fin 256);
            s = store ''tempC'' (Number tempC) s;
            s = store ''error'' (String ''none'') s;
            s = store ''p'' (Number (js_div (js_mul pRaw (Fin 4)) (Fin 100.0))) s;
            rh = js_mul (js_div (ToNumber hRaw) (Fin 256)) (Fin 100);
            s = store ''rh'' (Number rh) s
        in store ''tDewC'' (Number (dewpoint tempC rh)) s
      else s)"

text \<open>Light: mask \<open>0x10\<close>, and \<open>0x8\<close> in format \<open>0x11\<close>.\<close>

definition blk_lux :: "real \<Rightarrow> byte list \<Rightarrow> elem \<Rightarrow> dstate \<Rightarrow> dstate" where
  "blk_lux m bytes flags s =
     (if flag flags m then
        let luxRaw = be16 bytes (i s);
            s = set_i (i s + 2) s
        in store ''lux'' (Number luxRaw) s
      else s)"

text \<open>Format \<open>0x14\<close>: the pulse counters and the pulse rates.\<close>

definition blk_count :: "byte list \<Rightarrow> elem \<Rightarrow> dstate \<Rightarrow> dstate" where
  "blk_count bytes flags s =
     (if flag flags 0x20 then
        let powerIn = be16 bytes (i s);
            s = set_i (i s + 2) s;
            powerOut = be16 bytes (i s);
            s = set_i (i s + 2) s;
            s = store ''powerUsedCount'' (Number powerIn) s
        in store ''powerSourcedCount'' (Number powerOut) s
      else s)"

definition blk_rate :: "byte list \<Rightarrow> elem \<Rightarrow> dstate \<Rightarrow> dstate" where
  "blk_rate bytes flags s =
     (if flag flags 0x40 then
        let floatIn = be16 bytes (i s);
            s = set_i (i s + 2) s;
            floatOut = be16 bytes (i s);
            s = set_i (i s + 2) s;
            exp1 = js_shr floatIn 12;
            exp2 = js_shr floatOut 12;
            mant1 = js_div (js_and floatIn (Fin 0xFFF)) (Fin 4096.0);
            mant2 = js_div (js_and floatOut (Fin 0xFFF)) (Fin 4096.0);
            powerPerHourIn =
              js_mul (js_mul (js_mul (js_mul mant1 (Math_pow2 (js_sub exp1 (Fin 15))))
                (Fin 60)) (Fin 60)) (Fin 4);
            powerPerHourOut =
              js_mul (js_mul (js_mul (js_mul mant2 (Math_pow2 (js_sub exp2 (Fin 15))))
                (Fin 60)) (Fin 60)) (Fin 4);
            s = store ''powerUsedPerHour'' (Number powerPerHourIn) s
        in store ''powerSourcedPerHour'' (Number powerPerHourOut) s
      else s)"

text \<open>Format \<open>0x15\<close>: one-wire temperature and soil temperature with humidity.\<close>

definition blk_water15 :: "byte list \<Rightarrow> elem \<Rightarrow> dstate \<Rightarrow> dstate" where
  "blk_water15 bytes flags s =
     (if flag flags 0x20 then
        let tempRaw = be16 bytes (i s);
            s = set_i (i s + 2) s;
            tempRaw = int16 tempRaw
        in store ''tWater'' (Number (js_div tempRaw (Fin 256))) s
      else s)"

definition blk_soil15 :: "byte list \<Rightarrow> elem \<Rightarrow> dstate \<Rightarrow> dstate" where
  "blk_soil15 bytes flags s =
     (if flag flags 0x40 then
        let tempRaw = be16 bytes (i s);
            s = set_i (i s + 2) s;
            tempRaw = int16 tempRaw;
            tempRH = byte_at bytes (i s);
            s = set_i (i s + 1) s;
            tSoil = js_div tempRaw (Fin 256);
            s = store ''tSoil'' (Number tSoil) s;
            rhSoil = js_mul (js_div (ToNumber tempRH) (Fin 256)) (Fin 100);
            s = store ''rhSoil'' (Number rhSoil) s
        in store ''tSoilDew'' (Number (dewpoint tSoil rhSoil)) s
      else s)"

text \<open>Format \<open>0x11\<close>: the same two groups, written without the sign step.\<close>

definition blk_water11 :: "byte list \<Rightarrow> elem \<Rightarrow> dstate \<Rightarrow> dstate" where
  "blk_water11 bytes flags s =
     (if flag flags 0x10 then
        let tempRaw = be16 bytes (i s);
            s = set_i (i s + 2) s
        in store ''tWater'' (Number (js_div tempRaw (Fin 256))) s
      else s)"

definition blk_soil11 :: "byte list \<Rightarrow> elem \<Rightarrow> dstate \<Rightarrow> dstate" where
  "blk_soil11 bytes flags s =
     (if flag flags 0x20 then
        let tempRaw = be16 bytes (i s);
            s = set_i (i s + 2) s;
            tempRH = byte_at bytes (i s);
            s = set_i (i s + 1) s;
            tSoil = js_div tempRaw (Fin 256);
            s = store ''tSoil'' (Number tSoil) s;
            rhSoil = js_mul (js_div (ToNumber tempRH) (Fin 256)) (Fin 100);
            s = store ''rhSoil'' (Number rhSoil) s
        in store ''tSoilDew'' (Number (dewpoint tSoil rhSoil)) s
      else s)"

text \<open>Format \<open>0x17\<close>: the air quality index.\<close>

definition blk_aqi :: "byte list \<Rightarrow> elem \<Rightarrow> dstate \<Rightarrow> dstate" where
  "blk_aqi bytes flags s =
     (if flag flags 0x20 then
        let rawUflt16 = be16 bytes (i s);
            s = set_i (i s + 2) s;
            exp1 = js_shr rawUflt16 12;
            mant1 = js_div (js_and rawUflt16 (Fin 0xFFF)) (Fin 4096.0);
            f_unscaled = js_mul mant1 (Math_pow2 (js_sub exp1 (Fin 15)));
            aqi = js_mul f_unscaled (Fin 512)
        in store ''aqi'' (Number aqi) s
      else s)"

subsection \<open>The four formats\<close>

text \<open>\<open>var i = 1; var flags = bytes[i++];\<close>\<close>

definition start :: "obj \<Rightarrow> dstate" where
  "start d = \<lparr>i = 1, decoded = d, trail = [1]\<rparr>"

definition fetch_flags :: "byte list \<Rightarrow> dstate \<Rightarrow> elem \<times> dstate" where
  "fetch_flags bytes s = (byte_at bytes (i s), set_i (i s + 1) s)"

definition decode_0x14 :: "byte list \<Rightarrow> obj \<Rightarrow> dstate" where
  "decode_0x14 bytes d =
     (let (flags, s) = fetch_flags bytes (start d);
          s = blk_vBat bytes flags s;
          s = blk_vBus bytes flags s;
          s = blk_boot bytes flags s;
          s = blk_env 0x8 bytes flags s;
          s = blk_lux 0x10 bytes flags s;
          s = blk_count bytes flags s
      in blk_rate bytes flags s)"

definition decode_0x15 :: "byte list \<Rightarrow> obj \<Rightarrow> dstate" where
  "decode_0x15 bytes d =
     (let (flags, s) = fetch_flags bytes (start d);
          s = blk_vBat bytes flags s;
          s = blk_vBus bytes flags s;
          s = blk_boot bytes flags s;
          s = blk_env 0x8 bytes flags s;
          s = blk_lux 0x10 bytes flags s;
          s = blk_water15 bytes flags s
      in blk_soil15 bytes flags s)"

definition decode_0x11 :: "byte list \<Rightarrow> obj \<Rightarrow> dstate" where
  "decode_0x11 bytes d =
     (let (flags, s) = fetch_flags bytes (start d);
          s = blk_vBat bytes flags s;
          s = blk_vBus bytes flags s;
          s = blk_env 0x4 bytes flags s;
          s = blk_lux 0x8 bytes flags s;
          s = blk_water11 bytes flags s
      in blk_soil11 bytes flags s)"

definition decode_0x17 :: "byte list \<Rightarrow> obj \<Rightarrow> dstate" where
  "decode_0x17 bytes d =
     (let (flags, s) = fetch_flags bytes (start d);
          s = blk_vBat bytes flags s;
          s = blk_vBus bytes flags s;
          s = blk_boot bytes flags s;
          s = blk_env 0x8 bytes flags s;
          s = blk_lux 0x10 bytes flags s
      in blk_aqi bytes flags s)"

subsection \<open>The entry point\<close>

text \<open>
  \<open>cmd\<close> is assigned without a declaration, so it is a property of the global object
  and outlives the call. The model passes the global scope in and out.
\<close>

record globals =
  cmd :: elem

text \<open>
  The result of a run: the global scope after the call, the returned object, and the
  history of \<open>i\<close> (empty when no format was entered, where \<open>i\<close> is never assigned).
\<close>

definition Decoder_run :: "globals \<Rightarrow> byte list \<Rightarrow> int \<Rightarrow> globals \<times> obj \<times> nat list" where
  "Decoder_run g bytes port =
     (let d = [] in
      if port = 1 then
        let g = g\<lparr>cmd := byte_at bytes 0\<rparr> in
        if js_eq (cmd g) 0x14 then
          (let s = decode_0x14 bytes d in (g, decoded s, trail s))
        else if js_eq (cmd g) 0x15 then
          (let s = decode_0x15 bytes d in (g, decoded s, trail s))
        else if js_eq (cmd g) 0x11 then
          (let s = decode_0x11 bytes d in (g, decoded s, trail s))
        else if js_eq (cmd g) 0x17 then
          (let s = decode_0x17 bytes d in (g, decoded s, trail s))
        else (g, d, [])
      else (g, d, []))"

text \<open>The value the call returns.\<close>

definition Decoder :: "globals \<Rightarrow> byte list \<Rightarrow> int \<Rightarrow> obj" where
  "Decoder g bytes port = fst (snd (Decoder_run g bytes port))"

definition cursor_trail :: "globals \<Rightarrow> byte list \<Rightarrow> int \<Rightarrow> nat list" where
  "cursor_trail g bytes port = snd (snd (Decoder_run g bytes port))"

section \<open>Reference notions of the specification\<close>

text \<open>
  The definitions of this section are not translated from the source. They say, in the
  words of the specification, what the source is compared with: big-endian 16-bit
  values, the presence bitmask, the table of field groups of each format, the cursor
  positions that table predicts, the mini-float and the dew point formula.
\<close>

text \<open>The global scope before the first call: \<open>cmd\<close> has no value yet.\<close>

definition fresh :: globals where
  "fresh = \<lparr>cmd = None\<rparr>"

text \<open>
  Two bytes read big-endian as an unsigned 16-bit value, and the same value taken as
  signed two's complement: minus 65536 when bit 15 is set.
\<close>

definition u16 :: "byte \<Rightarrow> byte \<Rightarrow> int" where
  "u16 hi lo = 256 * uint hi + uint lo"

definition s16 :: "byte \<Rightarrow> byte \<Rightarrow> int" where
  "s16 hi lo = (let v = u16 hi lo in if bit v 15 then v - 65536 else v)"

text \<open>
  The mini-float: the low 12 bits over 4096, times two to the power of the top 4 bits
  minus 15.
\<close>

definition minifloat :: "byte \<Rightarrow> byte \<Rightarrow> real" where
  "minifloat hi lo =
     (let raw = u16 hi lo
      in of_int (take_bit 12 raw) / 4096 * 2 powr (of_int (drop_bit 12 raw) - 15))"

text \<open>The bitmask byte is there and has a bit of \<open>m\<close> set.\<close>

definition mask_set :: "byte list \<Rightarrow> int \<Rightarrow> bool" where
  "mask_set bytes m = (1 < length bytes \<and> uint (bytes ! 1) AND m \<noteq> 0)"

text \<open>The payload has a format selector and it is one of the four known ones.\<close>

definition recognised :: "byte list \<Rightarrow> bool" where
  "recognised bytes = (bytes \<noteq> [] \<and> bytes ! 0 \<in> {0x11, 0x14, 0x15, 0x17})"

text \<open>The table of section 4.2: the groups of each format with their bits, in order.\<close>

datatype group = VBat | VBus | Boot | Env | Lux | Counts | Rates | Water | Soil | Aqi

text \<open>The byte widths of the fields of a group, in the order they are read.\<close>

fun group_fields :: "group \<Rightarrow> nat list" where
  "group_fields VBat = [2]"
| "group_fields VBus = [2]"
| "group_fields Boot = [1]"
| "group_fields Env = [2, 2, 1]"
| "group_fields Lux = [2]"
| "group_fields Counts = [2, 2]"
| "group_fields Rates = [2, 2]"
| "group_fields Water = [2]"
| "group_fields Soil = [2, 1]"
| "group_fields Aqi = [2]"

definition layout :: "byte \<Rightarrow> (int \<times> group) list" where
  "layout fmt =
     (if fmt = 0x11 then
        [(0x01, VBat), (0x02, VBus), (0x04, Env), (0x08, Lux), (0x10, Water), (0x20, Soil)]
      else if fmt = 0x14 then
        [(0x01, VBat), (0x02, VBus), (0x04, Boot), (0x08, Env), (0x10, Lux), (0x20, Counts),
         (0x40, Rates)]
      else if fmt = 0x15 then
        [(0x01, VBat), (0x02, VBus), (0x04, Boot), (0x08, Env), (0x10, Lux), (0x20, Water),
         (0x40, Soil)]
      else if fmt = 0x17 then
        [(0x01, VBat), (0x02, VBus), (0x04, Boot), (0x08, Env), (0x10, Lux), (0x20, Aqi)]
      else [])"

text \<open>
  The widths of the fields a payload announces: those of the groups whose bit is set.
  The offset of a group is 2 (selector and bitmask) plus the widths of the announced
  fields of the groups before it. A group is present when its bit is set.
\<close>

fun present_fields :: "byte list \<Rightarrow> (int \<times> group) list \<Rightarrow> nat list" where
  "present_fields bytes [] = []"
| "present_fields bytes ((m, gr) # rest) =
     (if mask_set bytes m then group_fields gr else []) @ present_fields bytes rest"

fun before :: "group \<Rightarrow> (int \<times> group) list \<Rightarrow> (int \<times> group) list" where
  "before gr [] = []"
| "before gr ((m, gr') # rest) = (if gr' = gr then [] else (m, gr') # before gr rest)"

definition group_offset :: "byte list \<Rightarrow> group \<Rightarrow> nat" where
  "group_offset bytes gr = 2 + sum_list (present_fields bytes (before gr (layout (bytes ! 0))))"

definition group_present :: "byte list \<Rightarrow> group \<Rightarrow> bool" where
  "group_present bytes gr = list_ex (\<lambda>(m, gr'). gr' = gr \<and> mask_set bytes m) (layout (bytes ! 0))"

text \<open>The cursor positions reached from \<open>c\<close> by consuming fields of the given widths.\<close>

fun positions :: "nat \<Rightarrow> nat list \<Rightarrow> nat list" where
  "positions c [] = []"
| "positions c (w # ws) = (c + w) # positions (c + w) ws"

text \<open>
  The dew point formula, with \<open>h\<close> clamped into \<open>[0.01, 1]\<close>; \<open>magnus_den\<close> is
  its denominator.
\<close>

definition clamp_h :: "real \<Rightarrow> real" where
  "clamp_h rh = max 0.01 (min 1.0 (rh / 100))"

definition magnus_den :: "real \<Rightarrow> real \<Rightarrow> real" where
  "magnus_den t rh = 17.625 - ln (clamp_h rh) - t * 17.625 / (t + 243.04)"

definition magnus :: "real \<Rightarrow> real \<Rightarrow> real" where
  "magnus t rh =
     243.04 * (ln (clamp_h rh) + t * 17.625 / (t + 243.04)) / magnus_den t rh"

section \<open>Numbers and bits\<close>

lemma signed32_id: "- 2147483648 \<le> n \<Longrightarrow> n < 2147483648 \<Longrightarrow> signed32 n = n"
  by (simp add: signed32_def)

lemma ToInt32_of_int:
  "- 2147483648 \<le> n \<Longrightarrow> n < 2147483648 \<Longrightarrow> ToInt32 (Fin (of_int n)) = n"
  by (simp add: signed32_id)

lemma uint_byte_bounds: "0 \<le> uint (b :: byte)" "uint (b :: byte) < 256"
  using uint_bounded [of b] by simp_all

lemma u16_bounds: "0 \<le> u16 hi lo" "u16 hi lo < 65536"
  using uint_byte_bounds [of hi] uint_byte_bounds [of lo] by (simp_all add: u16_def)

lemma js_shl8: "0 \<le> n \<Longrightarrow> n < 256 \<Longrightarrow> js_shl (Fin (of_int n)) 8 = Fin (of_int (256 * n))"
  by (simp add: js_shl_def ToInt32_of_int signed32_id push_bit_eq_mult del: ToInt32.simps)

lemma be16_present:
  "k + 1 < length bytes \<Longrightarrow> be16 bytes k = Fin (of_int (u16 (bytes ! k) (bytes ! (k + 1))))"
  using uint_byte_bounds [of "bytes ! k"]
  by (simp add: be16_def byte_at_def js_shl8 u16_def del: of_int_uint)

lemma be16_absent: "\<not> k + 1 < length bytes \<Longrightarrow> be16 bytes k = NaN"
  by (simp add: be16_def byte_at_def js_shl_def)

lemma and_0x8000: "((v::int) AND 32768 \<noteq> 0) = bit v 15"
  using and_exp_eq_0_iff_not_bit [of v 15] by simp

lemma bit15_ge:
  assumes "0 \<le> v" "v < 65536"
  shows "bit (v::int) 15 = (32768 \<le> v)"
proof (cases "32768 \<le> v")
  case True
  have "v div 32768 = 1"
    by (rule int_div_pos_eq [where r = "v - 32768"]) (use True assms in simp_all)
  then show ?thesis using True by (simp add: bit_iff_odd_drop_bit drop_bit_eq_div)
next
  case False
  then have "v div 32768 = 0" using assms by simp
  then show ?thesis using False by (simp add: bit_iff_odd_drop_bit drop_bit_eq_div)
qed

lemma ToInt32_byte: "ToInt32 (Fin (of_int (uint (b :: byte)))) = uint b"
proof (rule ToInt32_of_int)
  have "0 \<le> uint b" by simp
  then show "- 2147483648 \<le> uint b" by linarith
  show "uint b < 2147483648" using uint_byte_bounds(2) [of b] by linarith
qed

lemma and_0xFFF: "(v::int) AND 4095 = v mod 4096"
  using take_bit_eq_mask [of 12 v] by (simp add: take_bit_eq_mod mask_eq_exp_minus_1)

lemma ToInt32_numeral: "ToInt32 (Fin (numeral n)) = signed32 (numeral n)"
  by simp

lemma int16_u16: "int16 (Fin (of_int (u16 hi lo))) = Fin (of_int (s16 hi lo))"
  using u16_bounds [of hi lo]
  by (simp add: int16_def js_and_def ToInt32_of_int ToInt32_numeral signed32_def and_0x8000 s16_def Let_def del: ToInt32.simps)

lemma int16_NaN: "int16 NaN = NaN"
  by (simp add: int16_def js_and_def)

lemma js_shr12: "0 \<le> v \<Longrightarrow> v < 65536 \<Longrightarrow> js_shr (Fin (of_int v)) 12 = Fin (of_int (v div 4096))"
  by (simp add: js_shr_def ToInt32_of_int drop_bit_eq_div del: ToInt32.simps)

lemma js_and_0xFFF: "0 \<le> v \<Longrightarrow> v < 65536 \<Longrightarrow> js_and (Fin (of_int v)) (Fin 0xFFF) = Fin (of_int (v mod 4096))"
  by (simp add: js_and_def ToInt32_of_int ToInt32_numeral signed32_def and_0xFFF del: ToInt32.simps)

lemma flag_mask:
  "0 \<le> m \<Longrightarrow> m < 256 \<Longrightarrow> flag (byte_at bytes (Suc 0)) (of_int m) = mask_set bytes m"
  by (simp add: flag_def byte_at_def js_and_def ToInt32_of_int ToInt32_byte mask_set_def del: ToInt32.simps(1) of_int_uint)

lemmas flag_masks = flag_mask [of 1, simplified] flag_mask [of 2, simplified] flag_mask [of 4, simplified]
  flag_mask [of 8, simplified] flag_mask [of 16, simplified] flag_mask [of 32, simplified] flag_mask [of 64, simplified]

lemma js_eq_byte: "js_eq (byte_at bytes 0) (of_int (uint (c::byte))) = (bytes \<noteq> [] \<and> bytes ! 0 = c)"
  by (simp add: byte_at_def word_uint_eq_iff del: of_int_uint)

lemmas js_eq_bytes = js_eq_byte [where c = "0x14", simplified] js_eq_byte [where c = "0x15", simplified]
  js_eq_byte [where c = "0x11", simplified] js_eq_byte [where c = "0x17", simplified]

lemmas st_defs = Let_def set_i_def store_def put_def js_get_def update_conv'

lemma blk_vBat_i: "i (blk_vBat bytes fl s) = i s + (if flag fl 1 then 2 else 0)"
  by (simp add: blk_vBat_def st_defs)

lemma blk_vBat_trail:
  "trail (blk_vBat bytes fl s) = trail s @ (if flag fl 1 then [i s + 2] else [])"
  by (simp add: blk_vBat_def st_defs del: add_2_eq_Suc' add_2_eq_Suc)

lemma blk_vBat_get:
  "js_get (decoded (blk_vBat bytes fl s)) k =
     (if flag fl 1 \<and> k \<in> {''vBat''} then
        Some (Number (js_div (int16 (be16 bytes (i s))) (Fin 4096)))
      else js_get (decoded s) k)"
  by (simp add: blk_vBat_def st_defs ac_simps del: add_2_eq_Suc' add_2_eq_Suc)

lemma blk_vBus_i: "i (blk_vBus bytes fl s) = i s + (if flag fl 2 then 2 else 0)"
  by (simp add: blk_vBus_def st_defs)

lemma blk_vBus_trail:
  "trail (blk_vBus bytes fl s) = trail s @ (if flag fl 2 then [i s + 2] else [])"
  by (simp add: blk_vBus_def st_defs del: add_2_eq_Suc' add_2_eq_Suc)

lemma blk_vBus_get:
  "js_get (decoded (blk_vBus bytes fl s)) k =
     (if flag fl 2 \<and> k \<in> {''vBus''} then
        Some (Number (js_div (int16 (be16 bytes (i s))) (Fin 4096)))
      else js_get (decoded s) k)"
  by (simp add: blk_vBus_def st_defs ac_simps del: add_2_eq_Suc' add_2_eq_Suc)

lemma blk_boot_i: "i (blk_boot bytes fl s) = i s + (if flag fl 4 then 1 else 0)"
  by (simp add: blk_boot_def st_defs)

lemma blk_boot_trail:
  "trail (blk_boot bytes fl s) = trail s @ (if flag fl 4 then [i s + 1] else [])"
  by (simp add: blk_boot_def st_defs del: add_2_eq_Suc' add_2_eq_Suc)

lemma blk_boot_get:
  "js_get (decoded (blk_boot bytes fl s)) k =
     (if flag fl 4 \<and> k \<in> {''boot''} then
        Some (val_of (byte_at bytes (i s)))
      else js_get (decoded s) k)"
  by (simp add: blk_boot_def st_defs ac_simps del: add_2_eq_Suc' add_2_eq_Suc)

lemma blk_env_i: "i (blk_env m bytes fl s) = i s + (if flag fl m then 5 else 0)"
  by (simp add: blk_env_def st_defs)

lemma blk_env_trail:
  "trail (blk_env m bytes fl s) = trail s @ (if flag fl m then [i s + 2, i s + 4, i s + 5] else [])"
  by (simp add: blk_env_def st_defs del: add_2_eq_Suc' add_2_eq_Suc)

lemma blk_env_get:
  "js_get (decoded (blk_env m bytes fl s)) k =
     (if flag fl m \<and> k \<in> {''tempC'', ''error'', ''p'', ''rh'', ''tDewC''} then
        if k = ''tempC'' then Some (Number (js_div (int16 (be16 bytes (i s))) (Fin 256)))
        else if k = ''error'' then Some (String ''none'')
        else if k = ''p'' then Some (Number (js_div (js_mul (be16 bytes (i s + 2)) (Fin 4)) (Fin 100)))
        else if k = ''rh'' then Some (Number (js_mul (js_div (ToNumber (byte_at bytes (i s + 4))) (Fin 256)) (Fin 100)))
        else Some (Number (dewpoint (js_div (int16 (be16 bytes (i s))) (Fin 256)) (js_mul (js_div (ToNumber (byte_at bytes (i s + 4))) (Fin 256)) (Fin 100))))
      else js_get (decoded s) k)"
  by (simp add: blk_env_def st_defs ac_simps del: add_2_eq_Suc' add_2_eq_Suc)

lemma blk_lux_i: "i (blk_lux m bytes fl s) = i s + (if flag fl m then 2 else 0)"
  by (simp add: blk_lux_def st_defs)

lemma blk_lux_trail:
  "trail (blk_lux m bytes fl s) = trail s @ (if flag fl m then [i s + 2] else [])"
  by (simp add: blk_lux_def st_defs del: add_2_eq_Suc' add_2_eq_Suc)

lemma blk_lux_get:
  "js_get (decoded (blk_lux m bytes fl s)) k =
     (if flag fl m \<and> k \<in> {''lux''} then
        Some (Number (be16 bytes (i s)))
      else js_get (decoded s) k)"
  by (simp add: blk_lux_def st_defs ac_simps del: add_2_eq_Suc' add_2_eq_Suc)

lemma blk_count_i: "i (blk_count bytes fl s) = i s + (if flag fl 32 then 4 else 0)"
  by (simp add: blk_count_def st_defs)

lemma blk_count_trail:
  "trail (blk_count bytes fl s) = trail s @ (if flag fl 32 then [i s + 2, i s + 4] else [])"
  by (simp add: blk_count_def st_defs del: add_2_eq_Suc' add_2_eq_Suc)

lemma blk_count_get:
  "js_get (decoded (blk_count bytes fl s)) k =
     (if flag fl 32 \<and> k \<in> {''powerUsedCount'', ''powerSourcedCount''} then
        if k = ''powerUsedCount'' then Some (Number (be16 bytes (i s)))
        else Some (Number (be16 bytes (i s + 2)))
      else js_get (decoded s) k)"
  by (simp add: blk_count_def st_defs ac_simps del: add_2_eq_Suc' add_2_eq_Suc)

lemma blk_rate_i: "i (blk_rate bytes fl s) = i s + (if flag fl 64 then 4 else 0)"
  by (simp add: blk_rate_def st_defs)

lemma blk_rate_trail:
  "trail (blk_rate bytes fl s) = trail s @ (if flag fl 64 then [i s + 2, i s + 4] else [])"
  by (simp add: blk_rate_def st_defs del: add_2_eq_Suc' add_2_eq_Suc)

lemma blk_rate_get:
  "js_get (decoded (blk_rate bytes fl s)) k =
     (if flag fl 64 \<and> k \<in> {''powerUsedPerHour'', ''powerSourcedPerHour''} then
        if k = ''powerUsedPerHour'' then Some (Number (js_mul (js_mul (js_mul (js_mul (js_div (js_and (be16 bytes (i s)) (Fin 4095)) (Fin 4096)) (Math_pow2 (js_sub (js_shr (be16 bytes (i s)) 12) (Fin 15)))) (Fin 60)) (Fin 60)) (Fin 4)))
        else Some (Number (js_mul (js_mul (js_mul (js_mul (js_div (js_and (be16 bytes (i s + 2)) (Fin 4095)) (Fin 4096)) (Math_pow2 (js_sub (js_shr (be16 bytes (i s + 2)) 12) (Fin 15)))) (Fin 60)) (Fin 60)) (Fin 4)))
      else js_get (decoded s) k)"
  by (simp add: blk_rate_def st_defs ac_simps del: add_2_eq_Suc' add_2_eq_Suc)

lemma blk_water15_i: "i (blk_water15 bytes fl s) = i s + (if flag fl 32 then 2 else 0)"
  by (simp add: blk_water15_def st_defs)

lemma blk_water15_trail:
  "trail (blk_water15 bytes fl s) = trail s @ (if flag fl 32 then [i s + 2] else [])"
  by (simp add: blk_water15_def st_defs del: add_2_eq_Suc' add_2_eq_Suc)

lemma blk_water15_get:
  "js_get (decoded (blk_water15 bytes fl s)) k =
     (if flag fl 32 \<and> k \<in> {''tWater''} then
        Some (Number (js_div (int16 (be16 bytes (i s))) (Fin 256)))
      else js_get (decoded s) k)"
  by (simp add: blk_water15_def st_defs ac_simps del: add_2_eq_Suc' add_2_eq_Suc)

lemma blk_soil15_i: "i (blk_soil15 bytes fl s) = i s + (if flag fl 64 then 3 else 0)"
  by (simp add: blk_soil15_def st_defs)

lemma blk_soil15_trail:
  "trail (blk_soil15 bytes fl s) = trail s @ (if flag fl 64 then [i s + 2, i s + 3] else [])"
  by (simp add: blk_soil15_def st_defs del: add_2_eq_Suc' add_2_eq_Suc)

lemma blk_soil15_get:
  "js_get (decoded (blk_soil15 bytes fl s)) k =
     (if flag fl 64 \<and> k \<in> {''tSoil'', ''rhSoil'', ''tSoilDew''} then
        if k = ''tSoil'' then Some (Number (js_div (int16 (be16 bytes (i s))) (Fin 256)))
        else if k = ''rhSoil'' then Some (Number (js_mul (js_div (ToNumber (byte_at bytes (i s + 2))) (Fin 256)) (Fin 100)))
        else Some (Number (dewpoint (js_div (int16 (be16 bytes (i s))) (Fin 256)) (js_mul (js_div (ToNumber (byte_at bytes (i s + 2))) (Fin 256)) (Fin 100))))
      else js_get (decoded s) k)"
  by (simp add: blk_soil15_def st_defs ac_simps del: add_2_eq_Suc' add_2_eq_Suc)

lemma blk_water11_i: "i (blk_water11 bytes fl s) = i s + (if flag fl 16 then 2 else 0)"
  by (simp add: blk_water11_def st_defs)

lemma blk_water11_trail:
  "trail (blk_water11 bytes fl s) = trail s @ (if flag fl 16 then [i s + 2] else [])"
  by (simp add: blk_water11_def st_defs del: add_2_eq_Suc' add_2_eq_Suc)

lemma blk_water11_get:
  "js_get (decoded (blk_water11 bytes fl s)) k =
     (if flag fl 16 \<and> k \<in> {''tWater''} then
        Some (Number (js_div (be16 bytes (i s)) (Fin 256)))
      else js_get (decoded s) k)"
  by (simp add: blk_water11_def st_defs ac_simps del: add_2_eq_Suc' add_2_eq_Suc)

lemma blk_soil11_i: "i (blk_soil11 bytes fl s) = i s + (if flag fl 32 then 3 else 0)"
  by (simp add: blk_soil11_def st_defs)

lemma blk_soil11_trail:
  "trail (blk_soil11 bytes fl s) = trail s @ (if flag fl 32 then [i s + 2, i s + 3] else [])"
  by (simp add: blk_soil11_def st_defs del: add_2_eq_Suc' add_2_eq_Suc)

lemma blk_soil11_get:
  "js_get (decoded (blk_soil11 bytes fl s)) k =
     (if flag fl 32 \<and> k \<in> {''tSoil'', ''rhSoil'', ''tSoilDew''} then
        if k = ''tSoil'' then Some (Number (js_div (be16 bytes (i s)) (Fin 256)))
        else if k = ''rhSoil'' then Some (Number (js_mul (js_div (ToNumber (byte_at bytes (i s + 2))) (Fin 256)) (Fin 100)))
        else Some (Number (dewpoint (js_div (be16 bytes (i s)) (Fin 256)) (js_mul (js_div (ToNumber (byte_at bytes (i s + 2))) (Fin 256)) (Fin 100))))
      else js_get (decoded s) k)"
  by (simp add: blk_soil11_def st_defs ac_simps del: add_2_eq_Suc' add_2_eq_Suc)

lemma blk_aqi_i: "i (blk_aqi bytes fl s) = i s + (if flag fl 32 then 2 else 0)"
  by (simp add: blk_aqi_def st_defs)

lemma blk_aqi_trail:
  "trail (blk_aqi bytes fl s) = trail s @ (if flag fl 32 then [i s + 2] else [])"
  by (simp add: blk_aqi_def st_defs del: add_2_eq_Suc' add_2_eq_Suc)

lemma blk_aqi_get:
  "js_get (decoded (blk_aqi bytes fl s)) k =
     (if flag fl 32 \<and> k \<in> {''aqi''} then
        Some (Number (js_mul (js_mul (js_div (js_and (be16 bytes (i s)) (Fin 4095)) (Fin 4096)) (Math_pow2 (js_sub (js_shr (be16 bytes (i s)) 12) (Fin 15)))) (Fin 512)))
      else js_get (decoded s) k)"
  by (simp add: blk_aqi_def st_defs ac_simps del: add_2_eq_Suc' add_2_eq_Suc)

lemmas blk_i = blk_vBat_i blk_vBus_i blk_boot_i blk_env_i blk_lux_i blk_count_i blk_rate_i blk_water15_i blk_soil15_i blk_water11_i blk_soil11_i blk_aqi_i

lemmas blk_trail = blk_vBat_trail blk_vBus_trail blk_boot_trail blk_env_trail blk_lux_trail blk_count_trail blk_rate_trail blk_water15_trail blk_soil15_trail blk_water11_trail blk_soil11_trail blk_aqi_trail

lemmas blk_get = blk_vBat_get blk_vBus_get blk_boot_get blk_env_get blk_lux_get blk_count_get blk_rate_get blk_water15_get blk_soil15_get blk_water11_get blk_soil11_get blk_aqi_get

lemma js_get_Nil: "js_get [] k = None"
  by (simp add: js_get_def)

lemma keys_get: "(k \<in> keys d) = (js_get d k \<noteq> None)"
  by (simp add: keys_def js_get_def map_of_eq_None_iff)

section \<open>The formats\<close>

lemmas decode_defs = decode_0x14_def decode_0x15_def decode_0x11_def decode_0x17_def
  fetch_flags_def start_def

lemma start_facts:
  "i (set_i (Suc (Suc 0)) \<lparr>i = Suc 0, decoded = d, trail = [Suc 0]\<rparr>) = 2"
  "trail (set_i (Suc (Suc 0)) \<lparr>i = Suc 0, decoded = d, trail = [Suc 0]\<rparr>) = [1, 2]"
  "decoded (set_i (Suc (Suc 0)) \<lparr>i = Suc 0, decoded = d, trail = [Suc 0]\<rparr>) = d"
  by (simp_all add: set_i_def)

lemma Decoder_eq:
  "Decoder g bytes port =
     (if port = 1 \<and> bytes \<noteq> [] then
        if bytes ! 0 = 0x14 then decoded (decode_0x14 bytes [])
        else if bytes ! 0 = 0x15 then decoded (decode_0x15 bytes [])
        else if bytes ! 0 = 0x11 then decoded (decode_0x11 bytes [])
        else if bytes ! 0 = 0x17 then decoded (decode_0x17 bytes [])
        else []
      else [])"
  by (simp add: Decoder_def Decoder_run_def Let_def js_eq_bytes)

lemma positions_append:
  "positions c (xs @ ys) = positions c xs @ positions (c + sum_list xs) ys"
  by (induction xs arbitrary: c) (simp_all add: ac_simps)

lemma positions_if:
  "positions c ((if b then xs else []) @ ys) =
     (if b then positions c xs else []) @ positions (c + (if b then sum_list xs else 0)) ys"
  by (simp add: positions_append)

lemma trail_0x14:
  "bytes ! 0 = 0x14 \<Longrightarrow> trail (decode_0x14 bytes d) = 1 # positions 1 (1 # present_fields bytes (layout (bytes ! 0)))"
  by (simp add: decode_defs blk_trail blk_i start_facts flag_masks layout_def)

lemma trail_0x15:
  "bytes ! 0 = 0x15 \<Longrightarrow> trail (decode_0x15 bytes d) = 1 # positions 1 (1 # present_fields bytes (layout (bytes ! 0)))"
  by (simp add: decode_defs blk_trail blk_i start_facts flag_masks layout_def)

lemma trail_0x11:
  "bytes ! 0 = 0x11 \<Longrightarrow> trail (decode_0x11 bytes d) = 1 # positions 1 (1 # present_fields bytes (layout (bytes ! 0)))"
  by (simp add: decode_defs blk_trail blk_i start_facts flag_masks layout_def)

lemma trail_0x17:
  "bytes ! 0 = 0x17 \<Longrightarrow> trail (decode_0x17 bytes d) = 1 # positions 1 (1 # present_fields bytes (layout (bytes ! 0)))"
  by (simp add: decode_defs blk_trail blk_i start_facts flag_masks layout_def)

section \<open>Bounds on the logarithm\<close>

lemma exp_lower9:
  fixes x :: real
  assumes "0 \<le> x"
  shows "(\<Sum>m<9. x ^ m / fact m) \<le> exp x"
proof -
  obtain t where "exp x = (\<Sum>m<9. x ^ m / fact m) + exp t / fact 9 * x ^ 9"
    using Maclaurin_exp_le [of x 9] by blast
  moreover have "0 \<le> exp t / fact 9 * x ^ 9"
    using assms by simp
  ultimately show ?thesis by linarith
qed

lemma exp_upper9:
  fixes x :: real
  assumes "0 \<le> x" "x \<le> 1"
  shows "exp x \<le> (\<Sum>m<9. x ^ m / fact m) + 3 * x ^ 9 / fact 9"
proof -
  obtain t where t: "\<bar>t\<bar> \<le> \<bar>x\<bar>"
    and e: "exp x = (\<Sum>m<9. x ^ m / fact m) + exp t / fact 9 * x ^ 9"
    using Maclaurin_exp_le [of x 9] by blast
  have "t \<le> 1" using t assms by linarith
  then have "exp t \<le> exp 1" by simp
  also have "\<dots> \<le> 3" by (rule exp_le)
  finally have "exp t \<le> 3" .
  then have "exp t * x ^ 9 \<le> 3 * x ^ 9"
    using assms by (intro mult_right_mono) simp_all
  then have "exp t / fact 9 * x ^ 9 \<le> 3 * x ^ 9 / fact 9"
    by (simp add: divide_right_mono)
  with e show ?thesis by linarith
qed

lemma taylor9: "(\<Sum>m<9. (x::real) ^ m / fact m) =
   1 + x + x^2/2 + x^3/6 + x^4/24 + x^5/120 + x^6/720 + x^7/5040 + x^8/40320"
  by (simp add: eval_nat_numeral lessThan_Suc fact_numeral)

lemma ln_256_195_lower: "27217786 / 100000000 < ln (256 / 195 :: real)"
proof -
  let ?x = "27217786 / 100000000 :: real"
  have "exp ?x \<le> (\<Sum>m<9. ?x ^ m / fact m) + 3 * ?x ^ 9 / fact 9"
    by (rule exp_upper9) simp_all
  also have "\<dots> < 256 / 195"
    unfolding taylor9 by (simp add: power_divide fact_numeral)
  finally have "exp ?x < 256 / 195" .
  then have "ln (exp ?x) < ln (256 / 195)"
    by (subst ln_less_cancel_iff) simp_all
  then show ?thesis by simp
qed

lemma ln_256_195_upper: "ln (256 / 195 :: real) < 27217791 / 100000000"
proof -
  let ?x = "27217791 / 100000000 :: real"
  have "256 / 195 < (\<Sum>m<9. ?x ^ m / fact m)"
    unfolding taylor9 by (simp add: power_divide)
  also have "\<dots> \<le> exp ?x"
    by (rule exp_lower9) simp
  finally have "256 / 195 < exp ?x" .
  then have "ln (256 / 195) < ln (exp ?x)"
    by (subst ln_less_cancel_iff) simp_all
  then show ?thesis by simp
qed

lemma ln_195_256: "ln (195 / 256 :: real) = - ln (256 / 195)"
  using ln_div [of 195 256] ln_div [of 256 195] by simp

section \<open>Reading the decoded object\<close>

lemmas run_simps = Decoder_eq decode_defs blk_get blk_i start_facts flag_masks js_get_Nil

lemma signed_value:
  "k + 2 \<le> length bytes \<Longrightarrow> c \<noteq> 0 \<Longrightarrow>
   js_div (int16 (be16 bytes k)) (Fin c) = Fin (of_int (s16 (bytes ! k) (bytes ! (k + 1))) / c)"
  by (simp add: be16_present int16_u16)

lemma unsigned_value:
  "k + 2 \<le> length bytes \<Longrightarrow> c \<noteq> 0 \<Longrightarrow>
   js_div (be16 bytes k) (Fin c) = Fin (of_int (u16 (bytes ! k) (bytes ! (k + 1))) / c)"
  by (simp add: be16_present)

lemma vBat_get:
  assumes "recognised bytes"
  shows "js_get (Decoder g bytes 1) ''vBat'' =
    (if mask_set bytes 1 then Some (Number (js_div (int16 (be16 bytes 2)) (Fin 4096))) else None)"
  using assms by (auto simp add: recognised_def run_simps)

lemma vBus_get:
  assumes "recognised bytes"
  shows "js_get (Decoder g bytes 1) ''vBus'' =
    (if mask_set bytes 2
     then Some (Number (js_div (int16 (be16 bytes (group_offset bytes VBus))) (Fin 4096)))
     else None)"
  using assms by (auto simp add: recognised_def run_simps group_offset_def layout_def)

lemma s16_examples: "s16 0x18 0x00 = 6144" "s16 0xF8 0x00 = - 2048"
  by (simp_all add: s16_def u16_def Let_def bit15_ge)

lemmas eval_defs = Decoder_def Decoder_run_def decode_0x14_def decode_0x15_def decode_0x11_def
  decode_0x17_def fetch_flags_def start_def byte_at_def set_i_def store_def flag_def be16_def
  int16_def put_def blk_vBat_def blk_vBus_def blk_boot_def blk_env_def blk_lux_def
  blk_count_def blk_rate_def blk_water15_def blk_soil15_def blk_water11_def blk_soil11_def
  blk_aqi_def js_shl_def js_shr_def js_and_def js_sub_def signed32_def Let_def

lemma tempC_0x11_get:
  assumes "bytes \<noteq> []" "bytes ! 0 = 0x11"
  shows "js_get (Decoder g bytes 1) ''tempC'' =
    (if mask_set bytes 4
     then Some (Number (js_div (int16 (be16 bytes (group_offset bytes Env))) (Fin 256)))
     else None)"
  using assms by (simp add: run_simps group_offset_def layout_def)

lemma tWater_0x11_get:
  assumes "bytes \<noteq> []" "bytes ! 0 = 0x11"
  shows "js_get (Decoder g bytes 1) ''tWater'' =
    (if mask_set bytes 16
     then Some (Number (js_div (be16 bytes (group_offset bytes Water)) (Fin 256)))
     else None)"
  using assms by (simp add: run_simps group_offset_def layout_def)

lemma minifloat_value:
  assumes "k + 2 \<le> length bytes"
  shows "js_mul (js_div (js_and (be16 bytes k) (Fin 4095)) (Fin 4096))
           (Math_pow2 (js_sub (js_shr (be16 bytes k) 12) (Fin 15)))
         = Fin (minifloat (bytes ! k) (bytes ! (k + 1)))"
  using assms u16_bounds [of "bytes ! k" "bytes ! (k + 1)"]
  by (simp add: be16_present js_and_0xFFF [simplified] js_shr12 js_sub_def minifloat_def Let_def
      take_bit_eq_mod drop_bit_eq_div)

lemma aqi_get:
  assumes "bytes \<noteq> []" "bytes ! 0 = 0x17"
  shows "js_get (Decoder g bytes 1) ''aqi'' =
    (if mask_set bytes 32
     then Some (Number (js_mul
       (js_mul (js_div (js_and (be16 bytes (group_offset bytes Aqi)) (Fin 4095)) (Fin 4096))
          (Math_pow2 (js_sub (js_shr (be16 bytes (group_offset bytes Aqi)) 12) (Fin 15))))
       (Fin 512)))
     else None)"
  using assms by (simp add: run_simps group_offset_def layout_def)

lemma boot_get:
  assumes "bytes \<noteq> []" "bytes ! 0 \<in> {0x14, 0x15, 0x17}"
  shows "js_get (Decoder g bytes 1) ''boot'' =
    (if mask_set bytes 4 then Some (val_of (byte_at bytes (group_offset bytes Boot))) else None)"
  using assms by (auto simp add: run_simps group_offset_def layout_def)

lemma minifloat_0xF907: "minifloat 0xF9 0x07 * 512 = 288.875"
  by (simp add: minifloat_def u16_def Let_def take_bit_eq_mod drop_bit_eq_div)

lemma positions_le: "x \<in> set (positions c ws) \<Longrightarrow> x \<le> c + sum_list ws"
proof (induction ws arbitrary: c)
  case Nil
  then show ?case by simp
next
  case (Cons w ws)
  then have "x = c + w \<or> x \<in> set (positions (c + w) ws)" by simp
  then show ?case
  proof
    assume "x = c + w"
    then show ?thesis by simp
  next
    assume "x \<in> set (positions (c + w) ws)"
    then have "x \<le> c + w + sum_list ws" by (rule Cons.IH)
    then show ?thesis by simp
  qed
qed

lemma positions_ge: "x \<in> set (positions c ws) \<Longrightarrow> c \<le> x"
proof (induction ws arbitrary: c)
  case Nil
  then show ?case by simp
next
  case (Cons w ws)
  then have "x = c + w \<or> x \<in> set (positions (c + w) ws)" by simp
  then show ?case
  proof
    assume "x = c + w"
    then show ?thesis by simp
  next
    assume "x \<in> set (positions (c + w) ws)"
    then have "c + w \<le> x" by (rule Cons.IH)
    then show ?thesis by simp
  qed
qed

lemma positions_sorted: "sorted (c # positions c ws)"
proof (induction ws arbitrary: c)
  case Nil
  show ?case by simp
next
  case (Cons w ws)
  have "c \<le> x" if "x \<in> set (positions (c + w) ws)" for x
    using positions_ge [OF that] by simp
  with Cons [of "c + w"] show ?case by simp
qed

lemma positions_last: "last (c # positions c ws) = c + sum_list ws"
  by (induction ws arbitrary: c) (simp_all add: ac_simps)

lemma cursor_trail_positions:
  assumes "recognised bytes"
  shows "cursor_trail g bytes 1 = 1 # positions 1 (1 # present_fields bytes (layout (bytes ! 0)))"
  using assms
  by (auto simp add: recognised_def cursor_trail_def Decoder_run_def Let_def js_eq_bytes
      trail_0x14 trail_0x15 trail_0x11 trail_0x17)

lemma cursor_trail_unrecognised:
  "port \<noteq> 1 \<or> \<not> recognised bytes \<Longrightarrow> cursor_trail g bytes port = []"
  by (auto simp add: recognised_def cursor_trail_def Decoder_run_def Let_def js_eq_bytes)

lemma clamp_h_pos: "0 < clamp_h rh"
  by (simp add: clamp_h_def max_def min_def)

lemma clamp_h_js:
  "(if js_le (js_div (Fin rh) (Fin 100)) (Fin 0.01) then Fin 0.01
    else if js_lt (Fin 1.0) (js_div (Fin rh) (Fin 100)) then Fin 1.0
    else js_div (Fin rh) (Fin 100)) = Fin (clamp_h rh)"
  by (simp add: clamp_h_def max_def min_def)

lemma dewpoint_Fin:
  assumes "t + 243.04 \<noteq> 0" "magnus_den t rh \<noteq> 0"
  shows "dewpoint (Fin t) (Fin rh) = Fin (magnus t rh)"
proof -
  define hh where "hh = clamp_h rh"
  define a where "a = t * 17.625 / (t + 243.04)"
  have den: "17.625 - ln hh - a \<noteq> 0"
    using assms(2) unfolding magnus_den_def hh_def a_def .
  have q: "js_div (js_mul (Fin t) (Fin 17.625)) (js_add (Fin t) (Fin 243.04)) = Fin a"
    using assms(1) unfolding a_def by simp
  have l: "Math_log (Fin hh) = Fin (ln hh)"
    using clamp_h_pos [of rh] unfolding hh_def by simp
  have "dewpoint (Fin t) (Fin rh) =
      js_div (js_mul (Fin 243.04) (js_add (Math_log (Fin hh)) (Fin a)))
             (js_sub (js_sub (Fin 17.625) (Math_log (Fin hh))) (Fin a))"
    unfolding dewpoint_def Let_def clamp_h_js q hh_def ..
  also have "\<dots> = Fin (243.04 * (ln hh + a) / (17.625 - ln hh - a))"
    unfolding l using den by (simp add: js_sub_def)
  also have "\<dots> = Fin (magnus t rh)"
    unfolding magnus_def magnus_den_def hh_def a_def ..
  finally show ?thesis .
qed

lemma magnus_defined:
  assumes "- 243.04 < t"
  shows "t + 243.04 \<noteq> 0" and "0 < magnus_den t rh"
proof -
  have p: "0 < t + 243.04" using assms by simp
  then show "t + 243.04 \<noteq> 0" by simp
  have "clamp_h rh \<le> 1" by (simp add: clamp_h_def max_def min_def)
  then have l: "ln (clamp_h rh) \<le> 0" using clamp_h_pos [of rh] by simp
  have "t * 17.625 < 17.625 * (t + 243.04)" by (simp add: algebra_simps)
  then have q: "t * 17.625 / (t + 243.04) < 17.625"
    using p by (simp add: pos_divide_less_eq)
  from l q show "0 < magnus_den t rh"
    unfolding magnus_den_def by linarith
qed

lemma clamp_h_example: "clamp_h 76.171875 = 195 / 256"
  by (simp add: clamp_h_def)

lemma magnus_interval:
  fixes x :: real
  assumes "27217786 / 100000000 < x" "x < 27217791 / 100000000"
  shows "0 < 17.625 + x - 21.61328125 * 17.625 / (21.61328125 + 243.04)"
    and "\<bar>243.04 * (- x + 21.61328125 * 17.625 / (21.61328125 + 243.04))
           / (17.625 + x - 21.61328125 * 17.625 / (21.61328125 + 243.04))
         - 17.236466758309017\<bar> < 1 / 10 ^ 6"
proof -
  define d where "d = 17625 / 1000 + x - 19503825 / 13550248"
  define n where "n = 24304 / 100 * (- x + 19503825 / 13550248)"
  have d: "0 < d"
    unfolding d_def using assms by argo
  have up: "n < (17236466758309017 / 1000000000000000 + 1 / 1000000) * d"
    unfolding d_def n_def using assms by argo
  have lo: "(17236466758309017 / 1000000000000000 - 1 / 1000000) * d < n"
    unfolding d_def n_def using assms by argo
  have "n / d < 17236466758309017 / 1000000000000000 + 1 / 1000000"
    using up d by (simp add: pos_divide_less_eq)
  moreover have "17236466758309017 / 1000000000000000 - 1 / 1000000 < n / d"
    using lo d by (simp add: pos_less_divide_eq)
  ultimately have b: "\<bar>n / d - 17236466758309017 / 1000000000000000\<bar> < 1 / 1000000"
    by argo
  have dd: "17.625 + x - 21.61328125 * 17.625 / (21.61328125 + 243.04) = d"
    unfolding d_def by simp
  have nn: "243.04 * (- x + 21.61328125 * 17.625 / (21.61328125 + 243.04)) = n"
    unfolding n_def by simp
  show "0 < 17.625 + x - 21.61328125 * 17.625 / (21.61328125 + 243.04)"
    unfolding dd by (rule d)
  show "\<bar>243.04 * (- x + 21.61328125 * 17.625 / (21.61328125 + 243.04))
           / (17.625 + x - 21.61328125 * 17.625 / (21.61328125 + 243.04))
         - 17.236466758309017\<bar> < 1 / 10 ^ 6"
    unfolding dd nn using b by simp
qed

lemma magnus_den_example: "0 < magnus_den 21.61328125 76.171875"
  unfolding magnus_den_def clamp_h_example ln_195_256
  using magnus_interval(1) [OF ln_256_195_lower ln_256_195_upper] by simp

lemma magnus_example:
  "\<bar>magnus 21.61328125 76.171875 - 17.236466758309017\<bar> < 1 / 10 ^ 6"
  unfolding magnus_def magnus_den_def clamp_h_example ln_195_256
  using magnus_interval(2) [OF ln_256_195_lower ln_256_195_upper] by simp

lemma env_get:
  assumes "recognised bytes"
  shows "js_get (Decoder g bytes 1) ''tempC'' =
           (if group_present bytes Env
            then Some (Number (js_div (int16 (be16 bytes (group_offset bytes Env))) (Fin 256)))
            else None)"
    and "js_get (Decoder g bytes 1) ''rh'' =
           (if group_present bytes Env
            then Some (Number (js_mul (js_div (ToNumber (byte_at bytes (group_offset bytes Env + 4)))
                                         (Fin 256)) (Fin 100)))
            else None)"
  using assms
  by (auto simp add: recognised_def run_simps group_offset_def layout_def group_present_def)

lemma dew_shared:
  "''tDewC'' \<in> keys (Decoder g bytes port) \<Longrightarrow>
     \<exists>tc hc. js_get (Decoder g bytes port) ''tempC'' = Some (Number tc)
        \<and> js_get (Decoder g bytes port) ''rh'' = Some (Number hc)
        \<and> js_get (Decoder g bytes port) ''tDewC'' = Some (Number (dewpoint tc hc))"
  by (simp add: keys_get run_simps split: if_splits)

lemma soil_dew_shared:
  "''tSoilDew'' \<in> keys (Decoder g bytes port) \<Longrightarrow>
     \<exists>ts hs. js_get (Decoder g bytes port) ''tSoil'' = Some (Number ts)
        \<and> js_get (Decoder g bytes port) ''rhSoil'' = Some (Number hs)
        \<and> js_get (Decoder g bytes port) ''tSoilDew'' = Some (Number (dewpoint ts hs))"
  by (simp add: keys_get run_simps split: if_splits)

lemma dew_keys:
  assumes "recognised bytes"
  shows "(''tDewC'' \<in> keys (Decoder g bytes 1)) = group_present bytes Env"
    and "(''tSoilDew'' \<in> keys (Decoder g bytes 1)) = group_present bytes Soil"
  using assms
  by (auto simp add: recognised_def keys_get run_simps layout_def group_present_def)

lemma soil_get:
  assumes "recognised bytes"
  shows "js_get (Decoder g bytes 1) ''tSoil'' =
           (if group_present bytes Soil
            then Some (Number (js_div
                   (if bytes ! 0 = 0x11 then be16 bytes (group_offset bytes Soil)
                    else int16 (be16 bytes (group_offset bytes Soil))) (Fin 256)))
            else None)"
    and "js_get (Decoder g bytes 1) ''rhSoil'' =
           (if group_present bytes Soil
            then Some (Number (js_mul (js_div (ToNumber (byte_at bytes (group_offset bytes Soil + 2)))
                                         (Fin 256)) (Fin 100)))
            else None)"
  using assms
  by (auto simp add: recognised_def run_simps group_offset_def layout_def group_present_def)

lemma dew_used:
  assumes "recognised bytes" "group_present bytes Env"
  shows "\<exists>tc hc. js_get (Decoder g bytes 1) ''tempC'' = Some (Number tc)
        \<and> js_get (Decoder g bytes 1) ''rh'' = Some (Number hc)
        \<and> js_get (Decoder g bytes 1) ''tDewC'' = Some (Number (dewpoint tc hc))"
  using dew_keys(1) [OF assms(1), of g] assms(2) by (intro dew_shared) simp

lemma soil_dew_used:
  assumes "recognised bytes" "group_present bytes Soil"
  shows "\<exists>ts hs. js_get (Decoder g bytes 1) ''tSoil'' = Some (Number ts)
        \<and> js_get (Decoder g bytes 1) ''rhSoil'' = Some (Number hs)
        \<and> js_get (Decoder g bytes 1) ''tSoilDew'' = Some (Number (dewpoint ts hs))"
  using dew_keys(2) [OF assms(1), of g] assms(2) by (intro soil_dew_shared) simp

section \<open>The claims\<close>

text \<open>
  C1. In each of the four formats on port 1, when bit \<open>0x01\<close> of the bitmask is set and
  the two bytes after the bitmask are there, \<open>vBat\<close> is those two bytes read big-endian,
  taken as a signed 16-bit value (minus 65536 when bit 15 is set), divided by 4096. The
  same holds for \<open>vBus\<close> under bit \<open>0x02\<close>, at the offset that follows the \<open>vBat\<close> field
  when it is present. Raw \<open>0x1800\<close> gives 1.5 and raw \<open>0xF800\<close> gives -0.5.
\<close>

theorem C1_voltage:
  assumes "recognised bytes"
  shows "(mask_set bytes 0x01 \<and> 4 \<le> length bytes \<longrightarrow>
            js_get (Decoder g bytes 1) ''vBat'' =
              Some (Number (Fin (of_int (s16 (bytes ! 2) (bytes ! 3)) / 4096))))
       \<and> (mask_set bytes 0x02 \<and> group_offset bytes VBus + 2 \<le> length bytes \<longrightarrow>
            js_get (Decoder g bytes 1) ''vBus'' =
              Some (Number (Fin (of_int (s16 (bytes ! group_offset bytes VBus)
                                           (bytes ! (group_offset bytes VBus + 1))) / 4096))))
       \<and> (Decoder g [bytes ! 0, 0x01, 0x18, 0x00] 1 = [(''vBat'', Number (Fin 1.5))]
          \<and> Decoder g [bytes ! 0, 0x01, 0xF8, 0x00] 1 = [(''vBat'', Number (Fin (- 0.5)))]
          \<and> Decoder g [bytes ! 0, 0x02, 0x18, 0x00] 1 = [(''vBus'', Number (Fin 1.5))]
          \<and> Decoder g [bytes ! 0, 0x02, 0xF8, 0x00] 1 = [(''vBus'', Number (Fin (- 0.5)))])"
proof (intro conjI impI)
  assume a: "mask_set bytes 0x01 \<and> 4 \<le> length bytes"
  then have "js_div (int16 (be16 bytes 2)) (Fin 4096) =
      Fin (of_int (s16 (bytes ! 2) (bytes ! (2 + 1))) / 4096)"
    by (intro signed_value) simp_all
  with a show "js_get (Decoder g bytes 1) ''vBat'' =
      Some (Number (Fin (of_int (s16 (bytes ! 2) (bytes ! 3)) / 4096)))"
    by (simp add: vBat_get [OF assms])
next
  assume a: "mask_set bytes 0x02 \<and> group_offset bytes VBus + 2 \<le> length bytes"
  then show "js_get (Decoder g bytes 1) ''vBus'' =
      Some (Number (Fin (of_int (s16 (bytes ! group_offset bytes VBus)
                                   (bytes ! (group_offset bytes VBus + 1))) / 4096)))"
    by (simp add: vBus_get [OF assms] signed_value)
next
  show "Decoder g [bytes ! 0, 0x01, 0x18, 0x00] 1 = [(''vBat'', Number (Fin 1.5))]"
    using assms by (auto simp add: recognised_def eval_defs)
  show "Decoder g [bytes ! 0, 0x01, 0xF8, 0x00] 1 = [(''vBat'', Number (Fin (- 0.5)))]"
    using assms by (auto simp add: recognised_def eval_defs)
  show "Decoder g [bytes ! 0, 0x02, 0x18, 0x00] 1 = [(''vBus'', Number (Fin 1.5))]"
    using assms by (auto simp add: recognised_def eval_defs)
  show "Decoder g [bytes ! 0, 0x02, 0xF8, 0x00] 1 = [(''vBus'', Number (Fin (- 0.5)))]"
    using assms by (auto simp add: recognised_def eval_defs)
qed

theorem C1_voltage_witness:
  "recognised [0x14, 0x03, 0x18, 0x00, 0xF8, 0x00]
   \<and> mask_set [0x14, 0x03, 0x18, 0x00, 0xF8, 0x00] 0x01
   \<and> mask_set [0x14, 0x03, 0x18, 0x00, 0xF8, 0x00] 0x02
   \<and> group_offset [0x14, 0x03, 0x18, 0x00, 0xF8, 0x00] VBus = 4
   \<and> js_get (Decoder fresh [0x14, 0x03, 0x18, 0x00, 0xF8, 0x00] 1) ''vBat'' = Some (Number (Fin 1.5))
   \<and> js_get (Decoder fresh [0x14, 0x03, 0x18, 0x00, 0xF8, 0x00] 1) ''vBus'' = Some (Number (Fin (- 0.5)))"
  using C1_voltage [of "[0x14, 0x03, 0x18, 0x00, 0xF8, 0x00]" fresh]
  by (simp add: recognised_def mask_set_def group_offset_def layout_def s16_examples)

text \<open>
  C2, as stated, fails: format \<open>0x11\<close> reads the temperature of its main group with
  the sign step, like the other formats. With raw \<open>0xF600\<close> the field \<open>tempC\<close> is -10,
  not 246.
\<close>

theorem C2_format_0x11_tempC_signed:
  "js_get (Decoder fresh [0x11, 0x04, 0xF6, 0x00, 0x5F, 0xCD, 0xC3] 1) ''tempC''
     = Some (Number (Fin (- 10)))
   \<and> Fin (of_int (u16 0xF6 0x00) / 256) = Fin 246
   \<and> js_get (Decoder fresh [0x11, 0x04, 0xF6, 0x00, 0x5F, 0xCD, 0xC3] 1) ''tempC''
     \<noteq> Some (Number (Fin (of_int (u16 0xF6 0x00) / 256)))"
  by (simp add: eval_defs u16_def js_get_def)

text \<open>
  C2, amended. In format \<open>0x11\<close>, when bit \<open>0x04\<close> is set and the two bytes at the
  offset of the main group are there, \<open>tempC\<close> is their signed big-endian 16-bit value
  divided by 256; when bit \<open>0x10\<close> is set and the two bytes at the offset of the one-wire
  group are there, \<open>tWater\<close> is their unsigned big-endian 16-bit value divided by 256.
\<close>

theorem C2_format_0x11_temperatures:
  assumes "bytes \<noteq> []" "bytes ! 0 = 0x11"
  shows "(mask_set bytes 0x04 \<and> group_offset bytes Env + 2 \<le> length bytes \<longrightarrow>
            js_get (Decoder g bytes 1) ''tempC'' =
              Some (Number (Fin (of_int (s16 (bytes ! group_offset bytes Env)
                                           (bytes ! (group_offset bytes Env + 1))) / 256))))
       \<and> (mask_set bytes 0x10 \<and> group_offset bytes Water + 2 \<le> length bytes \<longrightarrow>
            js_get (Decoder g bytes 1) ''tWater'' =
              Some (Number (Fin (of_int (u16 (bytes ! group_offset bytes Water)
                                           (bytes ! (group_offset bytes Water + 1))) / 256))))"
  by (simp add: tempC_0x11_get [OF assms] tWater_0x11_get [OF assms] signed_value unsigned_value)

theorem C2_format_0x11_temperatures_witness:
  "[0x11, 0x14, 0xF6, 0x00, 0x5F, 0xCD, 0xC3, 0xF6, 0x00] \<noteq> ([] :: byte list)
   \<and> [0x11, 0x14, 0xF6, 0x00, 0x5F, 0xCD, 0xC3, 0xF6, 0x00] ! 0 = (0x11 :: byte)
   \<and> mask_set [0x11, 0x14, 0xF6, 0x00, 0x5F, 0xCD, 0xC3, 0xF6, 0x00] 0x04
   \<and> mask_set [0x11, 0x14, 0xF6, 0x00, 0x5F, 0xCD, 0xC3, 0xF6, 0x00] 0x10
   \<and> group_offset [0x11, 0x14, 0xF6, 0x00, 0x5F, 0xCD, 0xC3, 0xF6, 0x00] Env = 2
   \<and> group_offset [0x11, 0x14, 0xF6, 0x00, 0x5F, 0xCD, 0xC3, 0xF6, 0x00] Water = 7
   \<and> js_get (Decoder fresh [0x11, 0x14, 0xF6, 0x00, 0x5F, 0xCD, 0xC3, 0xF6, 0x00] 1) ''tempC''
       = Some (Number (Fin (- 10)))
   \<and> js_get (Decoder fresh [0x11, 0x14, 0xF6, 0x00, 0x5F, 0xCD, 0xC3, 0xF6, 0x00] 1) ''tWater''
       = Some (Number (Fin 246))"
  using C2_format_0x11_temperatures [of "[0x11, 0x14, 0xF6, 0x00, 0x5F, 0xCD, 0xC3, 0xF6, 0x00]" fresh]
  by (simp add: mask_set_def group_offset_def layout_def s16_def u16_def Let_def bit15_ge)

text \<open>
  C3. The source at the failing input: in format \<open>0x11\<close> the soil group has no sign
  step, so raw \<open>0xF91B\<close> gives \<open>tSoil\<close> = 249.10546875. Format \<open>0x15\<close> decodes the same
  three bytes to -6.89453125, the signed value that the claim describes.
\<close>

theorem C3_format_0x11_tSoil_unsigned:
  "js_get (Decoder fresh [0x11, 0x20, 0xF9, 0x1B, 0xEC] 1) ''tSoil''
     = Some (Number (Fin 249.10546875))
   \<and> js_get (Decoder fresh [0x15, 0x40, 0xF9, 0x1B, 0xEC] 1) ''tSoil''
     = Some (Number (Fin (- 6.89453125)))
   \<and> Fin (of_int (s16 0xF9 0x1B) / 256) = Fin (- 6.89453125)"
  by (simp add: eval_defs s16_def u16_def bit15_ge js_get_def update_conv')

text \<open>
  C4. In format \<open>0x17\<close>, when bit \<open>0x20\<close> is set and the two bytes at the offset of the
  air quality group are there, \<open>aqi\<close> is their mini-float value (low 12 bits over 4096,
  times two to the power of the top 4 bits minus 15) multiplied by 512. The test vector
  of the source decodes to \<open>aqi\<close> = 288.875 and \<open>boot\<close> = 13.
\<close>

theorem C4_aqi:
  "(bytes \<noteq> [] \<and> bytes ! 0 = 0x17 \<and> mask_set bytes 0x20
      \<and> group_offset bytes Aqi + 2 \<le> length bytes \<longrightarrow>
      js_get (Decoder g bytes 1) ''aqi'' =
        Some (Number (Fin (minifloat (bytes ! group_offset bytes Aqi)
                                     (bytes ! (group_offset bytes Aqi + 1)) * 512))))
   \<and> js_get (Decoder g [0x17, 0x3D, 0x44, 0x60, 0x0D, 0x15, 0x9D, 0x5F, 0xCD, 0xC3, 0x00, 0x00,
                         0xF9, 0x07] 1) ''aqi'' = Some (Number (Fin 288.875))
   \<and> js_get (Decoder g [0x17, 0x3D, 0x44, 0x60, 0x0D, 0x15, 0x9D, 0x5F, 0xCD, 0xC3, 0x00, 0x00,
                         0xF9, 0x07] 1) ''boot'' = Some (Number (Fin 13))"
proof (intro conjI impI)
  assume a: "bytes \<noteq> [] \<and> bytes ! 0 = 0x17 \<and> mask_set bytes 0x20
      \<and> group_offset bytes Aqi + 2 \<le> length bytes"
  then show "js_get (Decoder g bytes 1) ''aqi'' =
        Some (Number (Fin (minifloat (bytes ! group_offset bytes Aqi)
                                     (bytes ! (group_offset bytes Aqi + 1)) * 512)))"
    by (simp add: aqi_get minifloat_value)
next
  show "js_get (Decoder g [0x17, 0x3D, 0x44, 0x60, 0x0D, 0x15, 0x9D, 0x5F, 0xCD, 0xC3, 0x00, 0x00,
                         0xF9, 0x07] 1) ''aqi'' = Some (Number (Fin 288.875))"
    by (simp add: aqi_get minifloat_value mask_set_def group_offset_def layout_def
        minifloat_0xF907)
  show "js_get (Decoder g [0x17, 0x3D, 0x44, 0x60, 0x0D, 0x15, 0x9D, 0x5F, 0xCD, 0xC3, 0x00, 0x00,
                         0xF9, 0x07] 1) ''boot'' = Some (Number (Fin 13))"
    by (simp add: boot_get mask_set_def group_offset_def layout_def byte_at_def)
qed

theorem C4_aqi_witness:
  "[0x17, 0x20, 0xF9, 0x07] \<noteq> ([] :: byte list) \<and> [0x17, 0x20, 0xF9, 0x07] ! 0 = (0x17 :: byte)
   \<and> mask_set [0x17, 0x20, 0xF9, 0x07] 0x20
   \<and> group_offset [0x17, 0x20, 0xF9, 0x07] Aqi = 2
   \<and> minifloat 0xF9 0x07 * 512 = 288.875
   \<and> js_get (Decoder fresh [0x17, 0x20, 0xF9, 0x07] 1) ''aqi'' = Some (Number (Fin 288.875))"
  using C4_aqi [of "[0x17, 0x20, 0xF9, 0x07]" fresh]
  by (simp add: mask_set_def group_offset_def layout_def minifloat_0xF907)

text \<open>
  C5. For a temperature \<open>t\<close> and a relative humidity \<open>rh\<close>, the dew point function
  clamps \<open>h = rh / 100\<close> into \<open>[0.01, 1]\<close> and returns
  \<open>c1 (ln h + t c2 / (t + c1)) / (c2 - ln h - t c2 / (t + c1))\<close> with \<open>c1 = 243.04\<close> and
  \<open>c2 = 17.625\<close>, wherever the two divisors of that formula are not zero, which
  includes every \<open>t\<close> above -243.04 (the decoder produces none below -128). At
  \<open>t = 21.61328125\<close> and \<open>rh = 76.171875\<close> the result is within one millionth of
  17.236466758309017. In each of the four formats on port 1, whenever the bit of the
  temperature, pressure and humidity group is set, the returned object has \<open>tempC\<close>,
  \<open>rh\<close> and \<open>tDewC\<close>, and \<open>tDewC\<close> is this function of the values under \<open>tempC\<close> and
  \<open>rh\<close>; whenever the bit of the soil group is set (formats \<open>0x11\<close> and \<open>0x15\<close>), it
  has \<open>tSoil\<close>, \<open>rhSoil\<close> and \<open>tSoilDew\<close>, and \<open>tSoilDew\<close> is the same function of the
  values under \<open>tSoil\<close> and \<open>rhSoil\<close>. No returned object has a dew point key computed
  any other way.
\<close>

theorem C5_dewpoint:
  "(t + 243.04 \<noteq> 0 \<and> magnus_den t rh \<noteq> 0 \<longrightarrow> dewpoint (Fin t) (Fin rh) = Fin (magnus t rh))
   \<and> (- 243.04 < t \<longrightarrow> dewpoint (Fin t) (Fin rh) = Fin (magnus t rh))
   \<and> \<bar>magnus 21.61328125 76.171875 - 17.236466758309017\<bar> < 1 / 10 ^ 6
   \<and> dewpoint (Fin 21.61328125) (Fin 76.171875) = Fin (magnus 21.61328125 76.171875)
   \<and> (recognised bytes \<and> group_present bytes Env \<longrightarrow>
        (\<exists>tc hc. js_get (Decoder g bytes 1) ''tempC'' = Some (Number tc)
           \<and> js_get (Decoder g bytes 1) ''rh'' = Some (Number hc)
           \<and> js_get (Decoder g bytes 1) ''tDewC'' = Some (Number (dewpoint tc hc))))
   \<and> (recognised bytes \<and> group_present bytes Soil \<longrightarrow>
        (\<exists>ts hs. js_get (Decoder g bytes 1) ''tSoil'' = Some (Number ts)
           \<and> js_get (Decoder g bytes 1) ''rhSoil'' = Some (Number hs)
           \<and> js_get (Decoder g bytes 1) ''tSoilDew'' = Some (Number (dewpoint ts hs))))
   \<and> (''tDewC'' \<in> keys (Decoder g bytes port) \<longrightarrow>
        (\<exists>tc hc. js_get (Decoder g bytes port) ''tempC'' = Some (Number tc)
           \<and> js_get (Decoder g bytes port) ''rh'' = Some (Number hc)
           \<and> js_get (Decoder g bytes port) ''tDewC'' = Some (Number (dewpoint tc hc))))
   \<and> (''tSoilDew'' \<in> keys (Decoder g bytes port) \<longrightarrow>
        (\<exists>ts hs. js_get (Decoder g bytes port) ''tSoil'' = Some (Number ts)
           \<and> js_get (Decoder g bytes port) ''rhSoil'' = Some (Number hs)
           \<and> js_get (Decoder g bytes port) ''tSoilDew'' = Some (Number (dewpoint ts hs))))"
proof (intro conjI impI)
  assume "t + 243.04 \<noteq> 0 \<and> magnus_den t rh \<noteq> 0"
  then show "dewpoint (Fin t) (Fin rh) = Fin (magnus t rh)"
    by (simp add: dewpoint_Fin)
next
  assume a: "- 243.04 < t"
  have "magnus_den t rh \<noteq> 0"
    using magnus_defined(2) [OF a, of rh] by simp
  with magnus_defined(1) [OF a] show "dewpoint (Fin t) (Fin rh) = Fin (magnus t rh)"
    by (rule dewpoint_Fin)
next
  show "\<bar>magnus 21.61328125 76.171875 - 17.236466758309017\<bar> < 1 / 10 ^ 6"
    by (rule magnus_example)
next
  have "(21.61328125 :: real) + 243.04 \<noteq> 0" by simp
  moreover have "magnus_den 21.61328125 76.171875 \<noteq> 0"
    using magnus_den_example by simp
  ultimately show "dewpoint (Fin 21.61328125) (Fin 76.171875) = Fin (magnus 21.61328125 76.171875)"
    by (rule dewpoint_Fin)
next
  assume "recognised bytes \<and> group_present bytes Env"
  then show "\<exists>tc hc. js_get (Decoder g bytes 1) ''tempC'' = Some (Number tc)
           \<and> js_get (Decoder g bytes 1) ''rh'' = Some (Number hc)
           \<and> js_get (Decoder g bytes 1) ''tDewC'' = Some (Number (dewpoint tc hc))"
    using dew_used [of bytes g] by blast
next
  assume "recognised bytes \<and> group_present bytes Soil"
  then show "\<exists>ts hs. js_get (Decoder g bytes 1) ''tSoil'' = Some (Number ts)
           \<and> js_get (Decoder g bytes 1) ''rhSoil'' = Some (Number hs)
           \<and> js_get (Decoder g bytes 1) ''tSoilDew'' = Some (Number (dewpoint ts hs))"
    using soil_dew_used [of bytes g] by blast
next
  assume "''tDewC'' \<in> keys (Decoder g bytes port)"
  then show "\<exists>tc hc. js_get (Decoder g bytes port) ''tempC'' = Some (Number tc)
           \<and> js_get (Decoder g bytes port) ''rh'' = Some (Number hc)
           \<and> js_get (Decoder g bytes port) ''tDewC'' = Some (Number (dewpoint tc hc))"
    by (rule dew_shared)
next
  assume "''tSoilDew'' \<in> keys (Decoder g bytes port)"
  then show "\<exists>ts hs. js_get (Decoder g bytes port) ''tSoil'' = Some (Number ts)
           \<and> js_get (Decoder g bytes port) ''rhSoil'' = Some (Number hs)
           \<and> js_get (Decoder g bytes port) ''tSoilDew'' = Some (Number (dewpoint ts hs))"
    by (rule soil_dew_shared)
qed

theorem C5_dewpoint_witness:
  "(21.61328125 :: real) + 243.04 \<noteq> 0
   \<and> magnus_den 21.61328125 76.171875 \<noteq> 0
   \<and> dewpoint (Fin 21.61328125) (Fin 76.171875) = Fin (magnus 21.61328125 76.171875)
   \<and> recognised [0x11, 0x24, 0x15, 0x9D, 0x5F, 0xCD, 0xC3, 0x14, 0x46, 0xE4]
   \<and> group_present [0x11, 0x24, 0x15, 0x9D, 0x5F, 0xCD, 0xC3, 0x14, 0x46, 0xE4] Env
   \<and> js_get (Decoder fresh [0x11, 0x24, 0x15, 0x9D, 0x5F, 0xCD, 0xC3, 0x14, 0x46, 0xE4] 1) ''tDewC''
       = Some (Number (dewpoint (Fin 21.61328125) (Fin 76.171875)))
   \<and> recognised [0x14, 0x08, 0x15, 0x9D, 0x5F, 0xCD, 0xC3]
   \<and> group_present [0x14, 0x08, 0x15, 0x9D, 0x5F, 0xCD, 0xC3] Env
   \<and> js_get (Decoder fresh [0x14, 0x08, 0x15, 0x9D, 0x5F, 0xCD, 0xC3] 1) ''tDewC''
       = Some (Number (dewpoint (Fin 21.61328125) (Fin 76.171875)))
   \<and> recognised [0x15, 0x48, 0x15, 0x9D, 0x5F, 0xCD, 0xC3, 0x14, 0x46, 0xE4]
   \<and> group_present [0x15, 0x48, 0x15, 0x9D, 0x5F, 0xCD, 0xC3, 0x14, 0x46, 0xE4] Env
   \<and> js_get (Decoder fresh [0x15, 0x48, 0x15, 0x9D, 0x5F, 0xCD, 0xC3, 0x14, 0x46, 0xE4] 1) ''tDewC''
       = Some (Number (dewpoint (Fin 21.61328125) (Fin 76.171875)))
   \<and> recognised [0x17, 0x08, 0x15, 0x9D, 0x5F, 0xCD, 0xC3]
   \<and> group_present [0x17, 0x08, 0x15, 0x9D, 0x5F, 0xCD, 0xC3] Env
   \<and> js_get (Decoder fresh [0x17, 0x08, 0x15, 0x9D, 0x5F, 0xCD, 0xC3] 1) ''tDewC''
       = Some (Number (dewpoint (Fin 21.61328125) (Fin 76.171875)))
   \<and> group_present [0x11, 0x24, 0x15, 0x9D, 0x5F, 0xCD, 0xC3, 0x14, 0x46, 0xE4] Soil
   \<and> js_get (Decoder fresh [0x11, 0x24, 0x15, 0x9D, 0x5F, 0xCD, 0xC3, 0x14, 0x46, 0xE4] 1) ''tSoilDew''
       = Some (Number (dewpoint (Fin 20.2734375) (Fin 89.0625)))
   \<and> group_present [0x15, 0x48, 0x15, 0x9D, 0x5F, 0xCD, 0xC3, 0x14, 0x46, 0xE4] Soil
   \<and> js_get (Decoder fresh [0x15, 0x48, 0x15, 0x9D, 0x5F, 0xCD, 0xC3, 0x14, 0x46, 0xE4] 1) ''tSoilDew''
       = Some (Number (dewpoint (Fin 20.2734375) (Fin 89.0625)))"
proof -
  have air: "js_get (Decoder fresh b 1) ''tDewC'' = Some (Number (dewpoint T H))"
    if "recognised b" "group_present b Env"
      "js_get (Decoder fresh b 1) ''tempC'' = Some (Number T)"
      "js_get (Decoder fresh b 1) ''rh'' = Some (Number H)" for b T H
    using C5_dewpoint [where bytes = b and g = fresh] that by auto
  have soil: "js_get (Decoder fresh b 1) ''tSoilDew'' = Some (Number (dewpoint T H))"
    if "recognised b" "group_present b Soil"
      "js_get (Decoder fresh b 1) ''tSoil'' = Some (Number T)"
      "js_get (Decoder fresh b 1) ''rhSoil'' = Some (Number H)" for b T H
    using C5_dewpoint [where bytes = b and g = fresh] that by auto
  have d: "magnus_den 21.61328125 76.171875 \<noteq> 0"
    using magnus_den_example by simp
  note th = C5_dewpoint [of "21.61328125" "76.171875"]
  have rb11: "recognised [0x11, 0x24, 0x15, 0x9D, 0x5F, 0xCD, 0xC3, 0x14, 0x46, 0xE4]"
    by (simp add: recognised_def)
  have eb11: "group_present [0x11, 0x24, 0x15, 0x9D, 0x5F, 0xCD, 0xC3, 0x14, 0x46, 0xE4] Env"
    by (simp add: group_present_def layout_def mask_set_def)
  have ob11: "group_offset [0x11, 0x24, 0x15, 0x9D, 0x5F, 0xCD, 0xC3, 0x14, 0x46, 0xE4] Env = 2"
    by (simp add: group_offset_def layout_def mask_set_def)
  have tb11: "js_get (Decoder fresh [0x11, 0x24, 0x15, 0x9D, 0x5F, 0xCD, 0xC3, 0x14, 0x46, 0xE4] 1) ''tempC'' = Some (Number (Fin 21.61328125))"
    by (simp add: env_get(1) [OF rb11] eb11 ob11 signed_value unsigned_value s16_def u16_def Let_def bit15_ge byte_at_def)
  have hb11: "js_get (Decoder fresh [0x11, 0x24, 0x15, 0x9D, 0x5F, 0xCD, 0xC3, 0x14, 0x46, 0xE4] 1) ''rh'' = Some (Number (Fin 76.171875))"
    by (simp add: env_get(2) [OF rb11] eb11 ob11 signed_value unsigned_value s16_def u16_def Let_def bit15_ge byte_at_def)
  note ab11 = air [OF rb11 eb11 tb11 hb11]
  have rb14: "recognised [0x14, 0x08, 0x15, 0x9D, 0x5F, 0xCD, 0xC3]"
    by (simp add: recognised_def)
  have eb14: "group_present [0x14, 0x08, 0x15, 0x9D, 0x5F, 0xCD, 0xC3] Env"
    by (simp add: group_present_def layout_def mask_set_def)
  have ob14: "group_offset [0x14, 0x08, 0x15, 0x9D, 0x5F, 0xCD, 0xC3] Env = 2"
    by (simp add: group_offset_def layout_def mask_set_def)
  have tb14: "js_get (Decoder fresh [0x14, 0x08, 0x15, 0x9D, 0x5F, 0xCD, 0xC3] 1) ''tempC'' = Some (Number (Fin 21.61328125))"
    by (simp add: env_get(1) [OF rb14] eb14 ob14 signed_value unsigned_value s16_def u16_def Let_def bit15_ge byte_at_def)
  have hb14: "js_get (Decoder fresh [0x14, 0x08, 0x15, 0x9D, 0x5F, 0xCD, 0xC3] 1) ''rh'' = Some (Number (Fin 76.171875))"
    by (simp add: env_get(2) [OF rb14] eb14 ob14 signed_value unsigned_value s16_def u16_def Let_def bit15_ge byte_at_def)
  note ab14 = air [OF rb14 eb14 tb14 hb14]
  have rb15: "recognised [0x15, 0x48, 0x15, 0x9D, 0x5F, 0xCD, 0xC3, 0x14, 0x46, 0xE4]"
    by (simp add: recognised_def)
  have eb15: "group_present [0x15, 0x48, 0x15, 0x9D, 0x5F, 0xCD, 0xC3, 0x14, 0x46, 0xE4] Env"
    by (simp add: group_present_def layout_def mask_set_def)
  have ob15: "group_offset [0x15, 0x48, 0x15, 0x9D, 0x5F, 0xCD, 0xC3, 0x14, 0x46, 0xE4] Env = 2"
    by (simp add: group_offset_def layout_def mask_set_def)
  have tb15: "js_get (Decoder fresh [0x15, 0x48, 0x15, 0x9D, 0x5F, 0xCD, 0xC3, 0x14, 0x46, 0xE4] 1) ''tempC'' = Some (Number (Fin 21.61328125))"
    by (simp add: env_get(1) [OF rb15] eb15 ob15 signed_value unsigned_value s16_def u16_def Let_def bit15_ge byte_at_def)
  have hb15: "js_get (Decoder fresh [0x15, 0x48, 0x15, 0x9D, 0x5F, 0xCD, 0xC3, 0x14, 0x46, 0xE4] 1) ''rh'' = Some (Number (Fin 76.171875))"
    by (simp add: env_get(2) [OF rb15] eb15 ob15 signed_value unsigned_value s16_def u16_def Let_def bit15_ge byte_at_def)
  note ab15 = air [OF rb15 eb15 tb15 hb15]
  have rb17: "recognised [0x17, 0x08, 0x15, 0x9D, 0x5F, 0xCD, 0xC3]"
    by (simp add: recognised_def)
  have eb17: "group_present [0x17, 0x08, 0x15, 0x9D, 0x5F, 0xCD, 0xC3] Env"
    by (simp add: group_present_def layout_def mask_set_def)
  have ob17: "group_offset [0x17, 0x08, 0x15, 0x9D, 0x5F, 0xCD, 0xC3] Env = 2"
    by (simp add: group_offset_def layout_def mask_set_def)
  have tb17: "js_get (Decoder fresh [0x17, 0x08, 0x15, 0x9D, 0x5F, 0xCD, 0xC3] 1) ''tempC'' = Some (Number (Fin 21.61328125))"
    by (simp add: env_get(1) [OF rb17] eb17 ob17 signed_value unsigned_value s16_def u16_def Let_def bit15_ge byte_at_def)
  have hb17: "js_get (Decoder fresh [0x17, 0x08, 0x15, 0x9D, 0x5F, 0xCD, 0xC3] 1) ''rh'' = Some (Number (Fin 76.171875))"
    by (simp add: env_get(2) [OF rb17] eb17 ob17 signed_value unsigned_value s16_def u16_def Let_def bit15_ge byte_at_def)
  note ab17 = air [OF rb17 eb17 tb17 hb17]
  have sb11: "group_present [0x11, 0x24, 0x15, 0x9D, 0x5F, 0xCD, 0xC3, 0x14, 0x46, 0xE4] Soil"
    by (simp add: group_present_def layout_def mask_set_def)
  have pb11: "group_offset [0x11, 0x24, 0x15, 0x9D, 0x5F, 0xCD, 0xC3, 0x14, 0x46, 0xE4] Soil = 7"
    by (simp add: group_offset_def layout_def mask_set_def)
  have ub11: "js_get (Decoder fresh [0x11, 0x24, 0x15, 0x9D, 0x5F, 0xCD, 0xC3, 0x14, 0x46, 0xE4] 1) ''tSoil'' = Some (Number (Fin 20.2734375))"
    by (simp add: soil_get(1) [OF rb11] sb11 pb11 signed_value unsigned_value s16_def u16_def Let_def bit15_ge byte_at_def)
  have vb11: "js_get (Decoder fresh [0x11, 0x24, 0x15, 0x9D, 0x5F, 0xCD, 0xC3, 0x14, 0x46, 0xE4] 1) ''rhSoil'' = Some (Number (Fin 89.0625))"
    by (simp add: soil_get(2) [OF rb11] sb11 pb11 signed_value unsigned_value s16_def u16_def Let_def bit15_ge byte_at_def)
  note cb11 = soil [OF rb11 sb11 ub11 vb11]
  have sb15: "group_present [0x15, 0x48, 0x15, 0x9D, 0x5F, 0xCD, 0xC3, 0x14, 0x46, 0xE4] Soil"
    by (simp add: group_present_def layout_def mask_set_def)
  have pb15: "group_offset [0x15, 0x48, 0x15, 0x9D, 0x5F, 0xCD, 0xC3, 0x14, 0x46, 0xE4] Soil = 7"
    by (simp add: group_offset_def layout_def mask_set_def)
  have ub15: "js_get (Decoder fresh [0x15, 0x48, 0x15, 0x9D, 0x5F, 0xCD, 0xC3, 0x14, 0x46, 0xE4] 1) ''tSoil'' = Some (Number (Fin 20.2734375))"
    by (simp add: soil_get(1) [OF rb15] sb15 pb15 signed_value unsigned_value s16_def u16_def Let_def bit15_ge byte_at_def)
  have vb15: "js_get (Decoder fresh [0x15, 0x48, 0x15, 0x9D, 0x5F, 0xCD, 0xC3, 0x14, 0x46, 0xE4] 1) ''rhSoil'' = Some (Number (Fin 89.0625))"
    by (simp add: soil_get(2) [OF rb15] sb15 pb15 signed_value unsigned_value s16_def u16_def Let_def bit15_ge byte_at_def)
  note cb15 = soil [OF rb15 sb15 ub15 vb15]
  from th d rb11 eb11 ab11 rb14 eb14 ab14 rb15 eb15 ab15 rb17 eb17 ab17 sb11 cb11 sb15 cb15
  show ?thesis by simp
qed

text \<open>
  C6. The decoder returns the empty object whenever the port is not 1, and whenever the
  port is 1 but the payload is empty or its first byte is none of \<open>0x11\<close>, \<open>0x14\<close>,
  \<open>0x15\<close>, \<open>0x17\<close>. The model has no failing branch: the call always returns.
\<close>

theorem C6_unrecognised_empty:
  "port \<noteq> 1 \<or> \<not> recognised bytes \<Longrightarrow> Decoder g bytes port = []"
  by (auto simp add: Decoder_eq recognised_def)

theorem C6_unrecognised_empty_witness:
  "(2::int) \<noteq> 1 \<and> Decoder fresh [0x14, 0x01, 0x18, 0x00] 2 = []
   \<and> \<not> recognised [0x99, 0x01, 0x18, 0x00] \<and> Decoder fresh [0x99, 0x01, 0x18, 0x00] 1 = []
   \<and> \<not> recognised [] \<and> Decoder fresh [] 1 = []"
  using C6_unrecognised_empty [of 2 "[0x14, 0x01, 0x18, 0x00]" fresh]
    C6_unrecognised_empty [of 1 "[0x99, 0x01, 0x18, 0x00]" fresh]
    C6_unrecognised_empty [of 1 "[]" fresh]
  by (simp add: recognised_def)

text \<open>
  C7, as stated, fails: the source never compares the cursor with the length of the
  payload. On the two-byte payload \<open>14 01\<close> the bitmask announces a battery voltage that
  is not there, and the cursor goes from 2 to 4.
\<close>

theorem C7_cursor_passes_end:
  "cursor_trail fresh [0x14, 0x01] 1 = [1, 2, 4]
   \<and> length [0x14, 0x01 :: byte] = 2
   \<and> \<not> last (cursor_trail fresh [0x14, 0x01] 1) \<le> length [0x14, 0x01 :: byte]"
  by (simp add: cursor_trail_def eval_defs)

text \<open>
  C7, amended. In a call on port 1 with a recognised format the cursor starts at 1 and
  then takes, in order, the running sums of the widths of the fields consumed: the
  bitmask byte and the fields of each group whose bit is set. So it never decreases, it
  grows by exactly the width of each field, and it ends at 2 plus the total width of the
  groups present. It stays within \<open>0 \<le> cursor \<le> len(payload)\<close> at all times exactly when
  the payload is at least that long.
\<close>

theorem C7_cursor_amended:
  assumes "recognised bytes"
  shows "cursor_trail g bytes 1 = 1 # positions 1 (1 # present_fields bytes (layout (bytes ! 0)))
       \<and> sorted (cursor_trail g bytes 1)
       \<and> last (cursor_trail g bytes 1) = 2 + sum_list (present_fields bytes (layout (bytes ! 0)))
       \<and> ((\<forall>c \<in> set (cursor_trail g bytes 1). c \<le> length bytes)
            = (2 + sum_list (present_fields bytes (layout (bytes ! 0))) \<le> length bytes))"
proof -
  let ?ws = "1 # present_fields bytes (layout (bytes ! 0))"
  have tr: "cursor_trail g bytes 1 = 1 # positions 1 ?ws"
    by (rule cursor_trail_positions [OF assms])
  have srt: "sorted (cursor_trail g bytes 1)"
    unfolding tr by (rule positions_sorted)
  have lst: "last (cursor_trail g bytes 1) = 2 + sum_list (present_fields bytes (layout (bytes ! 0)))"
    unfolding tr positions_last by simp
  have bnd: "(\<forall>c \<in> set (cursor_trail g bytes 1). c \<le> length bytes)
            = (2 + sum_list (present_fields bytes (layout (bytes ! 0))) \<le> length bytes)"
  proof
    assume a: "\<forall>c \<in> set (cursor_trail g bytes 1). c \<le> length bytes"
    have "last (cursor_trail g bytes 1) \<in> set (cursor_trail g bytes 1)"
      unfolding tr by (rule last_in_set) simp
    with a lst show "2 + sum_list (present_fields bytes (layout (bytes ! 0))) \<le> length bytes"
      by auto
  next
    assume a: "2 + sum_list (present_fields bytes (layout (bytes ! 0))) \<le> length bytes"
    show "\<forall>c \<in> set (cursor_trail g bytes 1). c \<le> length bytes"
    proof
      fix c assume "c \<in> set (cursor_trail g bytes 1)"
      then have "c = 1 \<or> c \<in> set (positions 1 ?ws)" unfolding tr by simp
      then have "c \<le> 1 + sum_list ?ws"
        using positions_le [of c 1 ?ws] by auto
      with a show "c \<le> length bytes" by simp
    qed
  qed
  from tr srt lst bnd show ?thesis by blast
qed

theorem C7_cursor_amended_witness:
  "recognised [0x14, 0x0D, 0xF8, 0x00, 0x42, 0x17, 0x80, 0x59, 0x35, 0x80]
   \<and> cursor_trail fresh [0x14, 0x0D, 0xF8, 0x00, 0x42, 0x17, 0x80, 0x59, 0x35, 0x80] 1
       = [1, 2, 4, 5, 7, 9, 10]
   \<and> length [0x14, 0x0D, 0xF8, 0x00, 0x42, 0x17, 0x80, 0x59, 0x35, 0x80 :: byte] = 10
   \<and> list_all (\<lambda>c. c \<le> 10)
         (cursor_trail fresh [0x14, 0x0D, 0xF8, 0x00, 0x42, 0x17, 0x80, 0x59, 0x35, 0x80] 1)"
  using C7_cursor_amended [of "[0x14, 0x0D, 0xF8, 0x00, 0x42, 0x17, 0x80, 0x59, 0x35, 0x80]" fresh]
  by (simp add: recognised_def mask_set_def layout_def)

text \<open>
  C8. In every recognised format the key \<open>error\<close> is in the returned object exactly
  when the bit of the temperature, pressure and humidity group is set in the bitmask
  (\<open>0x04\<close> in format \<open>0x11\<close>, \<open>0x08\<close> in the others), and its value is then the
  string \<open>none\<close>.
\<close>

theorem C8_error_status:
  assumes "recognised bytes"
  shows "js_get (Decoder g bytes 1) ''error'' =
           (if group_present bytes Env then Some (String ''none'') else None)
       \<and> (''error'' \<in> keys (Decoder g bytes 1)) = group_present bytes Env"
  using assms by (auto simp add: recognised_def run_simps layout_def group_present_def keys_get)

theorem C8_error_status_witness:
  "recognised [0x14, 0x0D, 0xF8, 0x00, 0x42, 0x17, 0x80, 0x59, 0x35, 0x80]
   \<and> group_present [0x14, 0x0D, 0xF8, 0x00, 0x42, 0x17, 0x80, 0x59, 0x35, 0x80] Env
   \<and> js_get (Decoder fresh [0x14, 0x0D, 0xF8, 0x00, 0x42, 0x17, 0x80, 0x59, 0x35, 0x80] 1)
        ''error'' = Some (String ''none'')
   \<and> recognised [0x11, 0x01, 0x18, 0x00]
   \<and> \<not> group_present [0x11, 0x01, 0x18, 0x00] Env
   \<and> js_get (Decoder fresh [0x11, 0x01, 0x18, 0x00] 1) ''error'' = None"
  using C8_error_status [of "[0x14, 0x0D, 0xF8, 0x00, 0x42, 0x17, 0x80, 0x59, 0x35, 0x80]" fresh]
    C8_error_status [of "[0x11, 0x01, 0x18, 0x00]" fresh]
  by (simp add: recognised_def mask_set_def layout_def group_present_def)

text \<open>
  C9. The returned object does not depend on the global scope the call starts in: two
  calls with the same bytes and port return equal objects, also when the second starts
  from the scope another call has left. The only thing a call on port 1 leaves behind
  is the global \<open>cmd\<close>, which the next call on port 1 assigns before it reads it and a
  call on another port never reads.
\<close>

theorem C9_pure:
  "Decoder g bytes port = Decoder g' bytes port
   \<and> Decoder (fst (Decoder_run g bytes' port')) bytes port = Decoder g bytes port
   \<and> fst (Decoder_run g bytes port) = (if port = 1 then g\<lparr>cmd := byte_at bytes 0\<rparr> else g)"
  by (simp add: Decoder_eq Decoder_run_def Let_def)

text \<open>
  C10. Field groups are atomic in the returned object, for every payload and port:
  \<open>tempC\<close>, \<open>p\<close>, \<open>rh\<close>, \<open>error\<close> and \<open>tDewC\<close> are present together or absent
  together, so are \<open>tSoil\<close>, \<open>rhSoil\<close> and \<open>tSoilDew\<close>, and so are
  \<open>powerUsedCount\<close> and \<open>powerSourcedCount\<close>; on port 1 with a recognised format each
  group is present exactly when its bit is set.
\<close>

theorem C10_groups_atomic:
  "(''tempC'' \<in> keys (Decoder g bytes port)) = (''p'' \<in> keys (Decoder g bytes port))
   \<and> (''tempC'' \<in> keys (Decoder g bytes port)) = (''rh'' \<in> keys (Decoder g bytes port))
   \<and> (''tempC'' \<in> keys (Decoder g bytes port)) = (''error'' \<in> keys (Decoder g bytes port))
   \<and> (''tempC'' \<in> keys (Decoder g bytes port)) = (''tDewC'' \<in> keys (Decoder g bytes port))
   \<and> (''tSoil'' \<in> keys (Decoder g bytes port)) = (''rhSoil'' \<in> keys (Decoder g bytes port))
   \<and> (''tSoil'' \<in> keys (Decoder g bytes port)) = (''tSoilDew'' \<in> keys (Decoder g bytes port))
   \<and> (''powerUsedCount'' \<in> keys (Decoder g bytes port)) =
       (''powerSourcedCount'' \<in> keys (Decoder g bytes port))
   \<and> (port = 1 \<and> recognised bytes \<longrightarrow>
        (''tempC'' \<in> keys (Decoder g bytes port)) = group_present bytes Env
      \<and> (''tSoil'' \<in> keys (Decoder g bytes port)) = group_present bytes Soil
      \<and> (''powerUsedCount'' \<in> keys (Decoder g bytes port)) = group_present bytes Counts)"
proof (intro conjI impI)
  show "(''tempC'' \<in> keys (Decoder g bytes port)) = (''p'' \<in> keys (Decoder g bytes port))"
    by (simp add: keys_get run_simps)
  show "(''tempC'' \<in> keys (Decoder g bytes port)) = (''rh'' \<in> keys (Decoder g bytes port))"
    by (simp add: keys_get run_simps)
  show "(''tempC'' \<in> keys (Decoder g bytes port)) = (''error'' \<in> keys (Decoder g bytes port))"
    by (simp add: keys_get run_simps)
  show "(''tempC'' \<in> keys (Decoder g bytes port)) = (''tDewC'' \<in> keys (Decoder g bytes port))"
    by (simp add: keys_get run_simps)
  show "(''tSoil'' \<in> keys (Decoder g bytes port)) = (''rhSoil'' \<in> keys (Decoder g bytes port))"
    by (simp add: keys_get run_simps)
  show "(''tSoil'' \<in> keys (Decoder g bytes port)) = (''tSoilDew'' \<in> keys (Decoder g bytes port))"
    by (simp add: keys_get run_simps)
  show "(''powerUsedCount'' \<in> keys (Decoder g bytes port)) =
       (''powerSourcedCount'' \<in> keys (Decoder g bytes port))"
    by (simp add: keys_get run_simps)
next
  assume a: "port = 1 \<and> recognised bytes"
  then show "(''tempC'' \<in> keys (Decoder g bytes port)) = group_present bytes Env"
    by (auto simp add: recognised_def keys_get run_simps layout_def group_present_def)
  from a show "(''tSoil'' \<in> keys (Decoder g bytes port)) = group_present bytes Soil"
    by (auto simp add: recognised_def keys_get run_simps layout_def group_present_def)
  from a show "(''powerUsedCount'' \<in> keys (Decoder g bytes port)) = group_present bytes Counts"
    by (auto simp add: recognised_def keys_get run_simps layout_def group_present_def)
qed

theorem C10_groups_atomic_witness:
  "recognised [0x15, 0x48, 0x15, 0x9D, 0x5F, 0xCD, 0xC3, 0x14, 0x46, 0xE4]
   \<and> group_present [0x15, 0x48, 0x15, 0x9D, 0x5F, 0xCD, 0xC3, 0x14, 0x46, 0xE4] Env
   \<and> group_present [0x15, 0x48, 0x15, 0x9D, 0x5F, 0xCD, 0xC3, 0x14, 0x46, 0xE4] Soil
   \<and> \<not> group_present [0x15, 0x48, 0x15, 0x9D, 0x5F, 0xCD, 0xC3, 0x14, 0x46, 0xE4] Counts
   \<and> ''tempC'' \<in> keys (Decoder fresh [0x15, 0x48, 0x15, 0x9D, 0x5F, 0xCD, 0xC3, 0x14, 0x46, 0xE4] 1)
   \<and> ''p'' \<in> keys (Decoder fresh [0x15, 0x48, 0x15, 0x9D, 0x5F, 0xCD, 0xC3, 0x14, 0x46, 0xE4] 1)
   \<and> ''rh'' \<in> keys (Decoder fresh [0x15, 0x48, 0x15, 0x9D, 0x5F, 0xCD, 0xC3, 0x14, 0x46, 0xE4] 1)
   \<and> ''error'' \<in> keys (Decoder fresh [0x15, 0x48, 0x15, 0x9D, 0x5F, 0xCD, 0xC3, 0x14, 0x46, 0xE4] 1)
   \<and> ''tDewC'' \<in> keys (Decoder fresh [0x15, 0x48, 0x15, 0x9D, 0x5F, 0xCD, 0xC3, 0x14, 0x46, 0xE4] 1)
   \<and> ''tSoil'' \<in> keys (Decoder fresh [0x15, 0x48, 0x15, 0x9D, 0x5F, 0xCD, 0xC3, 0x14, 0x46, 0xE4] 1)
   \<and> ''rhSoil'' \<in> keys (Decoder fresh [0x15, 0x48, 0x15, 0x9D, 0x5F, 0xCD, 0xC3, 0x14, 0x46, 0xE4] 1)
   \<and> ''tSoilDew'' \<in> keys (Decoder fresh [0x15, 0x48, 0x15, 0x9D, 0x5F, 0xCD, 0xC3, 0x14, 0x46, 0xE4] 1)
   \<and> ''powerUsedCount'' \<notin> keys (Decoder fresh [0x15, 0x48, 0x15, 0x9D, 0x5F, 0xCD, 0xC3, 0x14, 0x46, 0xE4] 1)
   \<and> ''powerSourcedCount'' \<notin> keys (Decoder fresh [0x15, 0x48, 0x15, 0x9D, 0x5F, 0xCD, 0xC3, 0x14, 0x46, 0xE4] 1)"
  using C10_groups_atomic [of fresh "[0x15, 0x48, 0x15, 0x9D, 0x5F, 0xCD, 0xC3, 0x14, 0x46, 0xE4]" 1]
  by (simp add: recognised_def mask_set_def layout_def group_present_def) blast

end
